theory Spec2Isabelle
  imports Main "HOL-Library.Word"
begin

unbundle bit_operations_syntax

section \<open>Primitive codec\<close>

text \<open>
  Package \<open>msrrp\<close> encodes requests into a \<open>bytes.Buffer\<close> and decodes responses from a
  \<open>bytes.Reader\<close>. Bytes, \<open>uint16\<close> and \<open>uint32\<close> are machine words; \<open>int\<close> and
  \<open>int64\<close> quantities (lengths, reader positions) stay far below their limits and are
  \<open>nat\<close> and \<open>int\<close>.
\<close>

type_synonym byte = "8 word"
type_synonym uint16 = "16 word"
type_synonym uint32 = "32 word"

text \<open>
  Error values. \<open>Errorf\<close> carries the message of a \<open>fmt.Errorf\<close>; \<open>EOF\<close> and
  \<open>ErrUnexpectedEOF\<close> are the two results of \<open>io.ReadFull\<close> on a short reader;
  \<open>ErrNegativePosition\<close> is the error of \<open>bytes.Reader.Seek\<close>; \<open>Panic\<close> stands for a
  run-time panic (nil dereference, index out of range).
\<close>

datatype error = Errorf string | EOF | ErrUnexpectedEOF | ErrNegativePosition | Panic string

datatype ByteOrder = LittleEndian | BigEndian

abbreviation le :: ByteOrder where "le \<equiv> LittleEndian"

abbreviation be :: ByteOrder where "be \<equiv> BigEndian"

fun PutUint16 :: "ByteOrder \<Rightarrow> uint16 \<Rightarrow> byte list" where
  "PutUint16 LittleEndian v = [ucast v, ucast (drop_bit 8 v)]"
| "PutUint16 BigEndian v = [ucast (drop_bit 8 v), ucast v]"

fun PutUint32 :: "ByteOrder \<Rightarrow> uint32 \<Rightarrow> byte list" where
  "PutUint32 LittleEndian v =
     [ucast v, ucast (drop_bit 8 v), ucast (drop_bit 16 v), ucast (drop_bit 24 v)]"
| "PutUint32 BigEndian v =
     [ucast (drop_bit 24 v), ucast (drop_bit 16 v), ucast (drop_bit 8 v), ucast v]"

text \<open>\<open>ByteOrder.Uint16\<close> and \<open>ByteOrder.Uint32\<close> index the slice and panic when it is short.\<close>

fun Uint16 :: "ByteOrder \<Rightarrow> byte list \<Rightarrow> error + uint16" where
  "Uint16 LittleEndian (b0 # b1 # bs) = Inr (ucast b0 OR push_bit 8 (ucast b1))"
| "Uint16 BigEndian (b0 # b1 # bs) = Inr (ucast b1 OR push_bit 8 (ucast b0))"
| "Uint16 bo bs = Inl (Panic ''index out of range'')"

fun Uint32 :: "ByteOrder \<Rightarrow> byte list \<Rightarrow> error + uint32" where
  "Uint32 LittleEndian (b0 # b1 # b2 # b3 # bs) =
     Inr (ucast b0 OR push_bit 8 (ucast b1) OR push_bit 16 (ucast b2) OR push_bit 24 (ucast b3))"
| "Uint32 BigEndian (b0 # b1 # b2 # b3 # bs) =
     Inr (ucast b3 OR push_bit 8 (ucast b2) OR push_bit 16 (ucast b1) OR push_bit 24 (ucast b0))"
| "Uint32 bo bs = Inl (Panic ''index out of range'')"

subsection \<open>bytes.Reader\<close>

text \<open>
  A \<open>bytes.Reader\<close> is the slice \<open>s\<close> and the read index \<open>i\<close>. \<open>Seek\<close> accepts any
  non-negative position, also one behind the end of the slice; a later read there returns
  \<open>EOF\<close>.
\<close>

record Reader =
  rd_s :: "byte list"
  rd_i :: int

definition NewReader :: "byte list \<Rightarrow> Reader" where
  "NewReader b = \<lparr>rd_s = b, rd_i = 0\<rparr>"

datatype Whence = SeekStart | SeekCurrent | SeekEnd

definition Seek :: "Reader \<Rightarrow> int \<Rightarrow> Whence \<Rightarrow> error + Reader" where
  "Seek r offset whence =
     (let abs_pos = (case whence of
                       SeekStart \<Rightarrow> offset
                     | SeekCurrent \<Rightarrow> rd_i r + offset
                     | SeekEnd \<Rightarrow> int (length (rd_s r)) + offset)
      in if abs_pos < 0 then Inl ErrNegativePosition else Inr (r\<lparr>rd_i := abs_pos\<rparr>))"

text \<open>
  \<open>io.ReadFull\<close> on a \<open>bytes.Reader\<close>, for a destination of \<open>n\<close> bytes: nothing is read
  for \<open>n = 0\<close>; \<open>EOF\<close> when no byte is left; \<open>ErrUnexpectedEOF\<close> when fewer than \<open>n\<close>
  are left.
\<close>

definition ReadFull :: "Reader \<Rightarrow> nat \<Rightarrow> error + (byte list \<times> Reader)" where
  "ReadFull r n =
     (if n = 0 then Inr ([], r)
      else if int (length (rd_s r)) \<le> rd_i r then Inl EOF
      else if length (rd_s r) - nat (rd_i r) < n then Inl ErrUnexpectedEOF
      else Inr (take n (drop (nat (rd_i r)) (rd_s r)), r\<lparr>rd_i := rd_i r + int n\<rparr>))"

text \<open>\<open>binary.Read\<close> into a \<open>uint16\<close>, a \<open>uint32\<close> and a byte slice of length \<open>n\<close>.\<close>

definition Read_uint16 :: "Reader \<Rightarrow> ByteOrder \<Rightarrow> error + (uint16 \<times> Reader)" where
  "Read_uint16 r bo =
     (case ReadFull r 2 of
        Inl e \<Rightarrow> Inl e
      | Inr (bs, r') \<Rightarrow> (case Uint16 bo bs of Inl e \<Rightarrow> Inl e | Inr v \<Rightarrow> Inr (v, r')))"

definition Read_uint32 :: "Reader \<Rightarrow> ByteOrder \<Rightarrow> error + (uint32 \<times> Reader)" where
  "Read_uint32 r bo =
     (case ReadFull r 4 of
        Inl e \<Rightarrow> Inl e
      | Inr (bs, r') \<Rightarrow> (case Uint32 bo bs of Inl e \<Rightarrow> Inl e | Inr v \<Rightarrow> Inr (v, r')))"

definition Read_bytes :: "Reader \<Rightarrow> nat \<Rightarrow> error + (byte list \<times> Reader)" where
  "Read_bytes r n = ReadFull r n"

section \<open>Strings\<close>

text \<open>
  A Go string is a sequence of UTF-8 bytes. The model keeps a (valid) string as the list
  of its code points; \<open>len_str\<close> is Go's \<open>len\<close>, the number of UTF-8 bytes.
\<close>

type_synonym rune = nat
type_synonym gostring = "rune list"

definition RuneLen :: "rune \<Rightarrow> nat" where
  "RuneLen c = (if c < 0x80 then 1 else if c < 0x800 then 2
                else if c < 0x10000 then 3 else if c < 0x110000 then 4 else 3)"

definition len_str :: "gostring \<Rightarrow> nat" where
  "len_str s = sum_list (map RuneLen s)"

text \<open>\<open>utf16.Encode\<close> and \<open>utf16.Decode\<close> of the Go standard library.\<close>

definition is_surrogate :: "nat \<Rightarrow> bool" where
  "is_surrogate c = (0xD800 \<le> c \<and> c < 0xE000)"

definition EncodeRune16 :: "rune \<Rightarrow> uint16 list" where
  "EncodeRune16 c =
     (if c < 0x10000 \<and> \<not> is_surrogate c then [of_nat c]
      else if 0x10000 \<le> c \<and> c < 0x110000
        then [of_nat (0xD800 + ((c - 0x10000) div 1024) mod 1024),
              of_nat (0xDC00 + (c - 0x10000) mod 1024)]
      else [0xFFFD])"

definition utf16_Encode :: "gostring \<Rightarrow> uint16 list" where
  "utf16_Encode s = concat (map EncodeRune16 s)"

fun utf16_Decode :: "uint16 list \<Rightarrow> gostring" where
  "utf16_Decode [] = []"
| "utf16_Decode [r] = (if \<not> is_surrogate (unat r) then [unat r] else [0xFFFD])"
| "utf16_Decode (r # r2 # rest) =
     (if \<not> is_surrogate (unat r) then unat r # utf16_Decode (r2 # rest)
      else if unat r < 0xDC00 \<and> 0xDC00 \<le> unat r2 \<and> unat r2 < 0xE000
        then ((unat r - 0xD800) * 1024 + (unat r2 - 0xDC00) + 0x10000) # utf16_Decode rest
      else 0xFFFD # utf16_Decode (r2 # rest))"

subsection \<open>Helpers of package msdtyp\<close>

text \<open>
  Package \<open>msdtyp\<close> of the repository (string helpers, conformant arrays, the security
  descriptor) is not part of the sources at hand. Its string helpers are modelled from the
  specification; the array and descriptor codecs are parameters (record \<open>msdtyp\<close> below).
\<close>

text \<open>
  Modelled from the spec: \<open>msdtyp.NullTerminate\<close> is missing. A null-terminated string
  carries exactly one null character behind its text: one is appended unless the string
  already ends with one (the string \<open>Software\<close> followed by a null encodes with a single
  trailing null).
\<close>

definition NullTerminate :: "gostring \<Rightarrow> gostring" where
  "NullTerminate s = (if s = [] then [0] else if last s \<noteq> 0 then s @ [0] else s)"

text \<open>
  Modelled from the spec: \<open>msdtyp.StripNullByte\<close> is missing. Decoding strips exactly one
  trailing null character, opportunistically: a string without one is left as it is.
\<close>

definition StripNullByte :: "gostring \<Rightarrow> gostring" where
  "StripNullByte s = (if s = [] then s else if last s = 0 then butlast s else s)"

text \<open>
  Modelled from the spec: \<open>msdtyp.NewUnicodeStr\<close> is missing. It returns the offset (always
  0), the element count, the padding length and the UTF-16LE bytes of the string, which is
  null-terminated first when asked. Padding rule: with
  \<open>consumed = Offset*2 + ActualCount*2\<close>, no padding when \<open>consumed mod 4 = 0\<close>, otherwise
  \<open>4 - consumed mod 4\<close> bytes.
\<close>

definition ToUnicode :: "gostring \<Rightarrow> byte list" where
  "ToUnicode s = concat (map (PutUint16 LittleEndian) (utf16_Encode s))"

definition NewUnicodeStr :: "gostring \<Rightarrow> bool \<Rightarrow> uint32 \<times> uint32 \<times> nat \<times> byte list" where
  "NewUnicodeStr s nullTerminated =
     (let s' = (if nullTerminated then NullTerminate s else s);
          buffer = ToUnicode s';
          offset = (0 :: uint32);
          count = (of_nat (length buffer div 2) :: uint32);
          consumed = unat (offset * 2 + count * 2);
          paddlen = (if consumed mod 4 = 0 then 0 else 4 - consumed mod 4)
      in (offset, count, paddlen, buffer))"

text \<open>
  Modelled from the spec: \<open>msdtyp.FromUnicodeString\<close> is missing. It reads the bytes as
  UTF-16LE code units and converts them to the host string.
\<close>

fun units_of_bytes :: "byte list \<Rightarrow> uint16 list" where
  "units_of_bytes (b0 # b1 # bs) = (ucast b0 OR push_bit 8 (ucast b1)) # units_of_bytes bs"
| "units_of_bytes bs = []"

definition FromUnicodeString :: "byte list \<Rightarrow> error + gostring" where
  "FromUnicodeString buf = Inr (utf16_Decode (units_of_bytes buf))"

section \<open>Unicode-string codec\<close>

record RPCUnicodeStr =
  MaxLength :: uint16
  S :: gostring

record RRPUnicodeStr =
  MaxLength :: uint16
  S :: gostring

text \<open>
  The number of bytes \<open>readConformantVaryingString\<close> seeks over behind the element bytes:
  \<open>paddLen := 4 - ((offset*2 + actualCount*2) % 4)\<close> in \<open>uint32\<close>, skipped unless it is 4.
\<close>

definition paddLen :: "uint32 \<Rightarrow> uint32 \<Rightarrow> uint32" where
  "paddLen offset actualCount = 4 - ((offset * 2 + actualCount * 2) mod 4)"

text \<open>
  The readers return the values of their results at the return statement, the error among
  them (\<open>None\<close> for \<open>nil\<close>), and the reader as they leave it.
\<close>

definition readConformantVaryingString :: "Reader \<Rightarrow> gostring \<times> error option \<times> Reader" where
  "readConformantVaryingString r =
     (case Read_uint32 r le of
        Inl e \<Rightarrow> ([], Some e, r)
      | Inr (maxCount, r1) \<Rightarrow>
          if maxCount = 0 then ([], None, r1)
          else (case Read_uint32 r1 le of
            Inl e \<Rightarrow> ([], Some e, r1)
          | Inr (offset, r2) \<Rightarrow>
              (case Read_uint32 r2 le of
                 Inl e \<Rightarrow> ([], Some e, r2)
               | Inr (actualCount, r3) \<Rightarrow>
                   (case (if offset > 0 then Seek r3 (int (unat offset) * 2) SeekCurrent
                          else Inr r3) of
                      Inl e \<Rightarrow> ([], Some e, r3)
                    | Inr r4 \<Rightarrow>
                        (case (if actualCount > 0
                               then (case Read_bytes r4 (unat (actualCount * 2)) of
                                       Inl e \<Rightarrow> Inl ([], e)
                                     | Inr (unc, r5) \<Rightarrow>
                                         (case FromUnicodeString unc of
                                            Inl e \<Rightarrow> Inl ([], e)
                                          | Inr s \<Rightarrow> Inr (s, r5)))
                               else Inr ([], r4)) of
                           Inl (s, e) \<Rightarrow> (s, Some e, r4)
                         | Inr (s, r6) \<Rightarrow>
                             if paddLen offset actualCount \<noteq> 4
                             then (case Seek r6 (int (unat (paddLen offset actualCount)))
                                          SeekCurrent of
                                     Inl e \<Rightarrow> (s, Some e, r6)
                                   | Inr r7 \<Rightarrow> (s, None, r7))
                             else (s, None, r6))))))"

definition readConformantVaryingStringPtr :: "Reader \<Rightarrow> gostring \<times> error option \<times> Reader" where
  "readConformantVaryingStringPtr r =
     (case Seek r 4 SeekCurrent of
        Inl e \<Rightarrow> ([], Some e, r)
      | Inr r1 \<Rightarrow> readConformantVaryingString r1)"

text \<open>
  The writers append to a \<open>bytes.Buffer\<close>, which every caller in the package passes as
  \<open>w\<close>. Its \<open>Write\<close> never returns an error, so \<open>binary.Write\<close> of a fixed-size value
  returns \<open>nil\<close> and the \<open>err != nil\<close> branches behind the writes are never taken: a write
  is an append, and the writers return the buffer and what else they change.
\<close>

definition writeConformantVaryingString ::
  "byte list \<Rightarrow> ByteOrder \<Rightarrow> RRPUnicodeStr \<Rightarrow> byte list \<times> nat" where
  "writeConformantVaryingString w bo us =
     (case NewUnicodeStr (RRPUnicodeStr.S us) True of
        (offset, count, paddlen, buffer) \<Rightarrow>
          let w1 = w @ PutUint32 bo (ucast (RRPUnicodeStr.MaxLength us));
              count' = (if RRPUnicodeStr.S us = [] then 0 else count);
              w2 = w1 @ PutUint32 bo offset;
              w3 = w2 @ PutUint32 bo count'
          in if RRPUnicodeStr.S us = [] then (w3, 12)
             else (w3 @ buffer @ replicate paddlen 0, 12 + length buffer + paddlen))"

definition writeConformantVaryingStringPtr ::
  "byte list \<Rightarrow> ByteOrder \<Rightarrow> RRPUnicodeStr \<Rightarrow> uint32 \<Rightarrow> byte list \<times> uint32 \<times> nat" where
  "writeConformantVaryingStringPtr w bo us refid =
     (let (w1, n) = (if refid \<noteq> 0 then (w @ PutUint32 bo refid, 4) else (w, 0));
          refid' = refid + 1;
          (w2, n2) = writeConformantVaryingString w1 bo us
      in (w2, refid', n + n2))"

definition readRPCUnicodeStr :: "Reader \<Rightarrow> gostring \<times> uint16 \<times> error option \<times> Reader" where
  "readRPCUnicodeStr r =
     (case Read_uint16 r le of
        Inl e \<Rightarrow> ([], 0, Some e, r)
      | Inr (l, r1) \<Rightarrow>
          (case Read_uint16 r1 le of
             Inl e \<Rightarrow> ([], 0, Some e, r1)
           | Inr (maxLength, r2) \<Rightarrow>
               if l = 0
               then (case Seek r2 4 SeekCurrent of
                       Inl e \<Rightarrow> ([], maxLength, Some e, r2)
                     | Inr r3 \<Rightarrow> ([], maxLength, None, r3))
               else (case readConformantVaryingStringPtr r2 of
                       (s, err, r3) \<Rightarrow> (s, maxLength, err, r3))))"

definition readRPCUnicodeStrPtr :: "Reader \<Rightarrow> gostring \<times> uint16 \<times> error option \<times> Reader" where
  "readRPCUnicodeStrPtr r =
     (case Seek r 4 SeekCurrent of
        Inl e \<Rightarrow> ([], 0, Some e, r)
      | Inr r1 \<Rightarrow> readRPCUnicodeStr r1)"

text \<open>
  \<open>writeRRPUnicodeStr\<close> works on the caller's struct through the pointer \<open>us\<close> and on the
  referent-ID counter through \<open>refId\<close>: both are returned as the writer leaves them.
\<close>

definition writeRRPUnicodeStr ::
  "byte list \<Rightarrow> ByteOrder \<Rightarrow> RRPUnicodeStr \<Rightarrow> uint32 \<Rightarrow> bool
     \<Rightarrow> byte list \<times> RRPUnicodeStr \<times> uint32" where
  "writeRRPUnicodeStr w bo us refId optional =
     (let (w1, us1) =
            (if RRPUnicodeStr.S us = [] then (w @ PutUint16 bo 0, us)
             else (let us' = us\<lparr>RRPUnicodeStr.S := NullTerminate (RRPUnicodeStr.S us)\<rparr>;
                       encodedLen = (of_nat (len_str (RRPUnicodeStr.S us')) :: uint16) * 2
                   in (w @ PutUint16 bo encodedLen, us')));
          l = (of_nat (len_str (RRPUnicodeStr.S us1)) :: uint16);
          us2 = (if RRPUnicodeStr.MaxLength us1 < l
                 then us1\<lparr>RRPUnicodeStr.MaxLength := l\<rparr> else us1);
          w2 = w1 @ PutUint16 bo (RRPUnicodeStr.MaxLength us2 * 2)
      in if RRPUnicodeStr.S us2 = [] \<and> optional then (w2 @ PutUint32 bo 0, us2, refId)
         else (case writeConformantVaryingStringPtr w2 bo us2 refId of
                 (w3, refId', n) \<Rightarrow> (w3, us2, refId')))"

text \<open>
  The methods have pointer receivers: each returns the receiver as it leaves it, and the
  result (\<open>Inl\<close> the error, \<open>Inr\<close> the bytes) or the error.
\<close>

definition RRPUnicodeStr_MarshalBinary ::
  "RRPUnicodeStr \<Rightarrow> RRPUnicodeStr \<times> (error + byte list)" where
  "RRPUnicodeStr_MarshalBinary self =
     (case writeRRPUnicodeStr [] le self 1 False of
        (w, self', refId) \<Rightarrow> (self', Inr w))"

definition readRRPUnicodeStr :: "Reader \<Rightarrow> gostring \<times> uint16 \<times> error option \<times> Reader" where
  "readRRPUnicodeStr r =
     (case readRPCUnicodeStr r of
        (s, maxLength, Some e, r1) \<Rightarrow> (s, maxLength, Some e, r1)
      | (s, maxLength, None, r1) \<Rightarrow> (StripNullByte s, maxLength, None, r1))"

definition RRPUnicodeStr_UnmarshalBinary ::
  "RRPUnicodeStr \<Rightarrow> byte list \<Rightarrow> RRPUnicodeStr \<times> error option" where
  "RRPUnicodeStr_UnmarshalBinary self buf =
     (if length buf < 20 then (self, Some (Errorf ''Buffer too small for RRPUnicodeStr!''))
      else (case readRRPUnicodeStr (NewReader buf) of
              (s, maxLength, err, r) \<Rightarrow>
                (self\<lparr>RRPUnicodeStr.S := s, RRPUnicodeStr.MaxLength := maxLength\<rparr>, err)))"

section \<open>Operation catalogue: the structures\<close>

record ReturnCode =
  rc_uint32 :: uint32

record Filetime =
  LowDateTime :: uint32
  HighDateTime :: uint32

record PFiletime =
  LowDateTime :: uint32
  HighDateTime :: uint32

record OpenRootKeyReq =
  ServerName :: uint32
  DesiredAccess :: uint32

record OpenKeyRes =
  HKey :: "byte list"
  ReturnCode :: uint32

record BaseRegCloseKeyReq =
  HKey :: "byte list"

text \<open>
  \<open>SecurityDescriptor\<close> is a pointer to a descriptor of package \<open>msdtyp\<close>: \<open>None\<close> is
  \<open>nil\<close>, and the descriptor type is the parameter \<open>'sd\<close>.
\<close>

record 'sd RpcSecurityDescriptor =
  SecurityDescriptor :: "'sd option"
  InSecurityDescriptor :: uint32
  OutSecurityDescriptor :: uint32

record 'sd RpcSecurityAttributes =
  Length :: uint32
  SecurityDescriptor :: "'sd RpcSecurityDescriptor"
  InheritHandle :: byte

record 'sd BaseRegCreateKeyReq =
  HKey :: "byte list"
  SubKey :: RRPUnicodeStr
  Class :: RRPUnicodeStr
  Options :: uint32
  DesiredAccess :: uint32
  SecurityAttr :: "'sd RpcSecurityAttributes option"
  Disposition :: uint32

record BaseRegCreateKeyRes =
  HKey :: "byte list"
  Disposition :: uint32
  ReturnCode :: uint32

record BaseRegDeleteKeyReq =
  HKey :: "byte list"
  SubKey :: RRPUnicodeStr

record BaseRegDeleteValueReq =
  HKey :: "byte list"
  ValueName :: RRPUnicodeStr

record BaseRegEnumKeyReq =
  HKey :: "byte list"
  Index :: uint32
  NameIn :: RRPUnicodeStr
  ClassIn :: RRPUnicodeStr
  LastWriteTime :: "PFiletime option"

record BaseRegEnumKeyRes =
  NameOut :: RRPUnicodeStr
  ClassOut :: RRPUnicodeStr
  LastWriteTime :: PFiletime
  ReturnCode :: uint32

record BaseRegEnumValueReq =
  HKey :: "byte list"
  Index :: uint32
  NameIn :: RRPUnicodeStr
  Type :: uint32
  Data :: "byte list"
  MaxLen :: uint32
  DataLen :: uint32

record BaseRegEnumValueRes =
  NameOut :: RPCUnicodeStr
  Type :: uint32
  Data :: "byte list"
  DataLen :: uint32
  MaxLen :: uint32
  ReturnCode :: uint32

record 'sd BaseRegGetKeySecurityReq =
  HKey :: "byte list"
  SecurityInformation :: uint32
  SecurityDescriptorIn :: "'sd RpcSecurityDescriptor"

record 'sd BaseRegGetKeySecurityRes =
  SecurityDescriptorOut :: "'sd RpcSecurityDescriptor"
  ReturnCode :: uint32

record BaseRegOpenKeyReq =
  HKey :: "byte list"
  SubKey :: RRPUnicodeStr
  Options :: uint32
  DesiredAccess :: uint32

record BaseRegQueryInfoKeyReq =
  HKey :: "byte list"
  ClassIn :: RRPUnicodeStr

record BaseRegQueryInfoKeyRes =
  ClassOut :: RPCUnicodeStr
  SubKeys :: uint32
  MaxSubKeyLen :: uint32
  MaxClassLen :: uint32
  Values :: uint32
  MaxValueNameLen :: uint32
  MaxValueLen :: uint32
  SecurityDescriptor :: uint32
  LastWriteTime :: Filetime
  ReturnCode :: uint32

record BaseRegQueryValueReq =
  HKey :: "byte list"
  ValueName :: RRPUnicodeStr
  Type :: uint32
  Data :: "byte list"
  MaxLen :: uint32
  DataLen :: uint32

record BaseRegQueryValueRes =
  Type :: uint32
  Data :: "byte list"
  DataLen :: uint32
  MaxLen :: uint32
  ReturnCode :: uint32

record 'sd BaseRegSaveKeyReq =
  HKey :: "byte list"
  FileName :: RRPUnicodeStr
  SecurityAttributes :: "'sd RpcSecurityAttributes"

record 'sd BaseRegSetKeySecurityReq =
  HKey :: "byte list"
  SecurityInformation :: uint32
  SecurityDescriptorIn :: "'sd RpcSecurityDescriptor"

record BaseRegSetValueReq =
  HKey :: "byte list"
  ValueName :: RRPUnicodeStr
  Type :: uint32
  Data :: "byte list"
  DataLen :: uint32

subsection \<open>The collaborators of package msdtyp\<close>

text \<open>
  The array and descriptor codecs of package \<open>msdtyp\<close> are not among the sources; the
  catalogue takes them as the parameter \<open>c\<close>. A writer gets the data and its numeric
  argument and returns the bytes it appends to \<open>w\<close>, or an error; a reader returns its
  data, its error and the reader as it leaves it; \<open>MarshalBinary\<close> of the descriptor is
  called through a pointer that may be \<open>nil\<close>.
\<close>

record 'sd msdtyp =
  SD_MarshalBinary :: "'sd option \<Rightarrow> error + byte list"
  SD_UnmarshalBinary :: "byte list \<Rightarrow> error + 'sd"
  WriteConformantVaryingArray :: "byte list \<Rightarrow> uint32 \<Rightarrow> error + byte list"
  WriteConformantArray :: "byte list \<Rightarrow> error + byte list"
  ReadConformantVaryingArray :: "Reader \<Rightarrow> byte list \<times> error option \<times> Reader"
  ReadConformantVaryingArrayPtr :: "Reader \<Rightarrow> byte list \<times> error option \<times> Reader"


section \<open>Security attributes and descriptors\<close>

text \<open>
  \<open>writeRPCSecurityAttributes\<close> and \<open>writeRPCSecurityDescriptor\<close> get their struct by
  value; they return the buffer, the referent-ID counter and the error.
\<close>

definition writeRPCSecurityAttributes ::
  "'sd msdtyp \<Rightarrow> byte list \<Rightarrow> ByteOrder \<Rightarrow> 'sd RpcSecurityAttributes \<Rightarrow> uint32
     \<Rightarrow> byte list \<times> uint32 \<times> error option" where
  "writeRPCSecurityAttributes c w bo sa refId =
     (let w1 = w @ PutUint32 bo refId;
          refId1 = refId + 1
      in case SD_MarshalBinary c
                (RpcSecurityDescriptor.SecurityDescriptor
                   (RpcSecurityAttributes.SecurityDescriptor sa)) of
           Inl e \<Rightarrow> (w1, refId1, Some e)
         | Inr buf \<Rightarrow>
             (let buflen = (of_nat (length buf) :: uint32);
                  sa' = (if RpcSecurityAttributes.Length sa < buflen
                         then sa\<lparr>RpcSecurityAttributes.Length := buflen\<rparr> else sa);
                  w2 = w1 @ PutUint32 bo (RpcSecurityAttributes.Length sa');
                  refId2 = refId1 + 1;
                  w3 = w2 @ PutUint32 bo refId2;
                  refId3 = refId2 + 1;
                  w4 = w3 @ PutUint32 bo buflen;
                  w5 = w4 @ PutUint32 bo buflen;
                  w6 = w5 @ PutUint32 le (ucast (RpcSecurityAttributes.InheritHandle sa'))
              in case WriteConformantVaryingArray c buf 0 of
                   Inl e \<Rightarrow> (w6, refId3, Some e)
                 | Inr body \<Rightarrow> (w6 @ body, refId3, None)))"


definition RpcSecurityAttributes_MarshalBinary ::
  "'sd msdtyp \<Rightarrow> 'sd RpcSecurityAttributes
     \<Rightarrow> 'sd RpcSecurityAttributes \<times> (error + byte list)" where
  "RpcSecurityAttributes_MarshalBinary c self =
     (case writeRPCSecurityAttributes c [] le self 1 of
        (w, refId, Some e) \<Rightarrow> (self, Inl e)
      | (w, refId, None) \<Rightarrow> (self, Inr w))"

section \<open>Operation catalogue: the encoders\<close>

definition OpenRootKeyReq_MarshalBinary ::
  "OpenRootKeyReq \<Rightarrow> OpenRootKeyReq \<times> (error + byte list)" where
  "OpenRootKeyReq_MarshalBinary self =
     (self, Inr (PutUint32 le (OpenRootKeyReq.ServerName self)
                 @ PutUint32 le (OpenRootKeyReq.DesiredAccess self)))"

definition OpenKeyRes_MarshalBinary :: "OpenKeyRes \<Rightarrow> OpenKeyRes \<times> (error + byte list)" where
  "OpenKeyRes_MarshalBinary self =
     (if length (OpenKeyRes.HKey self) \<noteq> 20
      then (self, Inl (Errorf ''Invalid length of HKey in OpenKeyRes''))
      else (self, Inr (OpenKeyRes.HKey self @ PutUint32 le (OpenKeyRes.ReturnCode self))))"














section \<open>Operation catalogue: the decoders\<close>

text \<open>
  \<open>ReturnCode.UnmarshalBinary\<close> calls \<open>le.Uint32(buf)\<close> on the buffer as it comes.
\<close>

definition ReturnCode_UnmarshalBinary :: "ReturnCode \<Rightarrow> byte list \<Rightarrow> ReturnCode \<times> error option" where
  "ReturnCode_UnmarshalBinary self buf =
     (case Uint32 le buf of
        Inl e \<Rightarrow> (self, Some e)
      | Inr v \<Rightarrow> (self\<lparr>rc_uint32 := v\<rparr>, None))"

definition OpenRootKeyReq_UnmarshalBinary ::
  "OpenRootKeyReq \<Rightarrow> byte list \<Rightarrow> OpenRootKeyReq \<times> error option" where
  "OpenRootKeyReq_UnmarshalBinary self buf =
     (let r = NewReader buf
      in case Read_uint32 r le of
           Inl e \<Rightarrow> (self, Some e)
         | Inr (v, r) \<Rightarrow>
      (let self = self\<lparr>OpenRootKeyReq.ServerName := v\<rparr>
       in case Read_uint32 r le of
            Inl e \<Rightarrow> (self, Some e)
          | Inr (v, r) \<Rightarrow> (self\<lparr>OpenRootKeyReq.DesiredAccess := v\<rparr>, None)))"

definition OpenKeyRes_UnmarshalBinary ::
  "OpenKeyRes \<Rightarrow> byte list \<Rightarrow> OpenKeyRes \<times> error option" where
  "OpenKeyRes_UnmarshalBinary self buf =
     (if length buf < 20
      then (self, Some (Errorf ''Buffer too short to unmarshal OpenKeyRes''))
      else
        (let r = NewReader buf;
             self = self\<lparr>OpenKeyRes.HKey := replicate 20 0\<rparr>
         in case Read_bytes r 20 of
              Inl e \<Rightarrow> (self, Some e)
            | Inr (v, r) \<Rightarrow>
         (let self = self\<lparr>OpenKeyRes.HKey := v\<rparr>
          in case Read_uint32 r le of
               Inl e \<Rightarrow> (self, Some e)
             | Inr (v, r) \<Rightarrow> (self\<lparr>OpenKeyRes.ReturnCode := v\<rparr>, None))))"


definition BaseRegCreateKeyRes_UnmarshalBinary ::
  "BaseRegCreateKeyRes \<Rightarrow> byte list \<Rightarrow> BaseRegCreateKeyRes \<times> error option" where
  "BaseRegCreateKeyRes_UnmarshalBinary self buf =
     (if length buf < 28
      then (self, Some (Errorf ''Buffer too short to unmarshal BaseRegCreateKeyRes''))
      else
        (let r = NewReader buf;
             self = self\<lparr>BaseRegCreateKeyRes.HKey := replicate 20 0\<rparr>
         in case Read_bytes r 20 of
              Inl e \<Rightarrow> (self, Some e)
            | Inr (v, r) \<Rightarrow>
         (let self = self\<lparr>BaseRegCreateKeyRes.HKey := v\<rparr>
          in case Seek r 4 SeekCurrent of
               Inl e \<Rightarrow> (self, Some e)
             | Inr r \<Rightarrow>
          (case Read_uint32 r le of
             Inl e \<Rightarrow> (self, Some e)
           | Inr (v, r) \<Rightarrow>
          (let self = self\<lparr>BaseRegCreateKeyRes.Disposition := v\<rparr>
           in case Read_uint32 r le of
                Inl e \<Rightarrow> (self, Some e)
              | Inr (v, r) \<Rightarrow> (self\<lparr>BaseRegCreateKeyRes.ReturnCode := v\<rparr>, None))))))"

definition BaseRegEnumKeyRes_UnmarshalBinary ::
  "BaseRegEnumKeyRes \<Rightarrow> byte list \<Rightarrow> BaseRegEnumKeyRes \<times> error option" where
  "BaseRegEnumKeyRes_UnmarshalBinary self buf =
     (if length buf < 36
      then (self, Some (Errorf ''Buffer too short for BaseRegEnumKeyRes''))
      else
        (let r = NewReader buf
         in case readRRPUnicodeStr r of (s, maxLength, err, r) \<Rightarrow>
         (let self = self\<lparr>BaseRegEnumKeyRes.NameOut :=
                            \<lparr>RRPUnicodeStr.MaxLength = maxLength, S = s\<rparr>\<rparr>
          in case err of Some e \<Rightarrow> (self, Some e) | None \<Rightarrow>
          (case Seek r 4 SeekCurrent of
             Inl e \<Rightarrow> (self, Some e)
           | Inr r \<Rightarrow>
          (case readRRPUnicodeStr r of (s, maxLength, err, r) \<Rightarrow>
          (let self = self\<lparr>BaseRegEnumKeyRes.ClassOut :=
                             \<lparr>RRPUnicodeStr.MaxLength = maxLength, S = s\<rparr>\<rparr>
           in case err of Some e \<Rightarrow> (self, Some e) | None \<Rightarrow>
           (case Seek r 4 SeekCurrent of
              Inl e \<Rightarrow> (self, Some e)
            | Inr r \<Rightarrow>
           (case Read_uint32 r le of
              Inl e \<Rightarrow> (self, Some e)
            | Inr (v, r) \<Rightarrow>
           (let self = self\<lparr>BaseRegEnumKeyRes.LastWriteTime :=
                              (BaseRegEnumKeyRes.LastWriteTime self)
                                \<lparr>PFiletime.LowDateTime := v\<rparr>\<rparr>
            in case Read_uint32 r le of
                 Inl e \<Rightarrow> (self, Some e)
               | Inr (v, r) \<Rightarrow>
            (let self = self\<lparr>BaseRegEnumKeyRes.LastWriteTime :=
                               (BaseRegEnumKeyRes.LastWriteTime self)
                                 \<lparr>PFiletime.HighDateTime := v\<rparr>\<rparr>
             in case Read_uint32 r le of
                  Inl e \<Rightarrow> (self, Some e)
                | Inr (v, r) \<Rightarrow>
                    (self\<lparr>BaseRegEnumKeyRes.ReturnCode := v\<rparr>, None)))))))))))"

definition BaseRegEnumValueRes_UnmarshalBinary ::
  "'sd msdtyp \<Rightarrow> BaseRegEnumValueRes \<Rightarrow> byte list \<Rightarrow> BaseRegEnumValueRes \<times> error option" where
  "BaseRegEnumValueRes_UnmarshalBinary c self buf =
     (if length buf < 36
      then (self, Some (Errorf ''Buffer to short for BaseRegEnumValueRes''))
      else
        (let r = NewReader buf
         in case readRPCUnicodeStr r of (s, maxLength, err, r) \<Rightarrow>
         (let self = self\<lparr>BaseRegEnumValueRes.NameOut :=
                            \<lparr>RPCUnicodeStr.MaxLength = maxLength, S = s\<rparr>\<rparr>
          in case err of Some e \<Rightarrow> (self, Some e) | None \<Rightarrow>
          (case Seek r 4 SeekCurrent of
             Inl e \<Rightarrow> (self, Some e)
           | Inr r \<Rightarrow>
          (case Read_uint32 r le of
             Inl e \<Rightarrow> (self, Some e)
           | Inr (v, r) \<Rightarrow>
          (let self = self\<lparr>BaseRegEnumValueRes.Type := v\<rparr>
           in case ReadConformantVaryingArrayPtr c r of (data, err, r) \<Rightarrow>
           (let self = self\<lparr>BaseRegEnumValueRes.Data := data\<rparr>
            in case err of Some e \<Rightarrow> (self, Some e) | None \<Rightarrow>
            (case Seek r 4 SeekCurrent of
               Inl e \<Rightarrow> (self, Some e)
             | Inr r \<Rightarrow>
            (case Read_uint32 r le of
               Inl e \<Rightarrow> (self, Some e)
             | Inr (v, r) \<Rightarrow>
            (let self = self\<lparr>BaseRegEnumValueRes.DataLen := v\<rparr>
             in case Seek r 4 SeekCurrent of
                  Inl e \<Rightarrow> (self, Some e)
                | Inr r \<Rightarrow>
             (case Read_uint32 r le of
                Inl e \<Rightarrow> (self, Some e)
              | Inr (v, r) \<Rightarrow>
             (let self = self\<lparr>BaseRegEnumValueRes.MaxLen := v\<rparr>
              in case Read_uint32 r le of
                   Inl e \<Rightarrow> (self, Some e)
                 | Inr (v, r) \<Rightarrow>
                     (self\<lparr>BaseRegEnumValueRes.ReturnCode := v\<rparr>, None)))))))))))))"

text \<open>
  \<open>BaseRegGetKeySecurityRes.UnmarshalBinary\<close> drops the result of the first \<open>Seek\<close>: the
  read of the return code overwrites \<open>err\<close>.
\<close>

definition BaseRegGetKeySecurityRes_UnmarshalBinary ::
  "'sd msdtyp \<Rightarrow> 'sd BaseRegGetKeySecurityRes \<Rightarrow> byte list
     \<Rightarrow> 'sd BaseRegGetKeySecurityRes \<times> error option" where
  "BaseRegGetKeySecurityRes_UnmarshalBinary c self buf =
     (if length buf < 16
      then (self, Some (Errorf ''Buffer to short for BaseRegGetKeySecurityRes''))
      else
        (let r = NewReader buf;
             r = (case Seek r (- 4) SeekEnd of Inl e \<Rightarrow> r | Inr r' \<Rightarrow> r')
         in case Read_uint32 r le of
              Inl e \<Rightarrow> (self, Some e)
            | Inr (v, r) \<Rightarrow>
         (let self = self\<lparr>BaseRegGetKeySecurityRes.ReturnCode := v\<rparr>
          in if BaseRegGetKeySecurityRes.ReturnCode self \<noteq> 0 then (self, None)
             else
          (case Seek r 4 SeekStart of
             Inl e \<Rightarrow> (self, Some e)
           | Inr r \<Rightarrow>
          (case Read_uint32 r le of
             Inl e \<Rightarrow> (self, Some e)
           | Inr (v, r) \<Rightarrow>
          (let self = self\<lparr>BaseRegGetKeySecurityRes.SecurityDescriptorOut :=
                             (BaseRegGetKeySecurityRes.SecurityDescriptorOut self)
                               \<lparr>RpcSecurityDescriptor.InSecurityDescriptor := v\<rparr>\<rparr>
           in case Read_uint32 r le of
                Inl e \<Rightarrow> (self, Some e)
              | Inr (v, r) \<Rightarrow>
           (let self = self\<lparr>BaseRegGetKeySecurityRes.SecurityDescriptorOut :=
                              (BaseRegGetKeySecurityRes.SecurityDescriptorOut self)
                                \<lparr>RpcSecurityDescriptor.OutSecurityDescriptor := v\<rparr>\<rparr>
            in case ReadConformantVaryingArray c r of
                 (data, Some e, r) \<Rightarrow> (self, Some e)
               | (data, None, r) \<Rightarrow>
                   (case SD_UnmarshalBinary c data of
                      Inl e \<Rightarrow> (self, Some e)
                    | Inr sd \<Rightarrow>
                        (self\<lparr>BaseRegGetKeySecurityRes.SecurityDescriptorOut :=
                                 (BaseRegGetKeySecurityRes.SecurityDescriptorOut self)
                                   \<lparr>RpcSecurityDescriptor.SecurityDescriptor := Some sd\<rparr>\<rparr>,
                         None)))))))))"

text \<open>
  \<open>BaseRegQueryInfoKeyRes.UnmarshalBinary\<close> and \<open>BaseRegQueryValueRes.UnmarshalBinary\<close>
  start to read without a check of the length of the buffer.
\<close>

definition BaseRegQueryInfoKeyRes_UnmarshalBinary ::
  "BaseRegQueryInfoKeyRes \<Rightarrow> byte list \<Rightarrow> BaseRegQueryInfoKeyRes \<times> error option" where
  "BaseRegQueryInfoKeyRes_UnmarshalBinary self buf =
     (let r = NewReader buf
      in case readRPCUnicodeStr r of (s, maxLength, err, r) \<Rightarrow>
      (let self = self\<lparr>BaseRegQueryInfoKeyRes.ClassOut :=
                         \<lparr>RPCUnicodeStr.MaxLength = maxLength, S = s\<rparr>\<rparr>
       in case err of Some e \<Rightarrow> (self, Some e) | None \<Rightarrow>
       (case Read_uint32 r le of
          Inl e \<Rightarrow> (self, Some e)
        | Inr (v, r) \<Rightarrow>
       (let self = self\<lparr>BaseRegQueryInfoKeyRes.SubKeys := v\<rparr>
        in case Read_uint32 r le of
             Inl e \<Rightarrow> (self, Some e)
           | Inr (v, r) \<Rightarrow>
        (let self = self\<lparr>BaseRegQueryInfoKeyRes.MaxSubKeyLen := v\<rparr>
         in case Read_uint32 r le of
              Inl e \<Rightarrow> (self, Some e)
            | Inr (v, r) \<Rightarrow>
         (let self = self\<lparr>BaseRegQueryInfoKeyRes.MaxClassLen := v\<rparr>
          in case Read_uint32 r le of
               Inl e \<Rightarrow> (self, Some e)
             | Inr (v, r) \<Rightarrow>
          (let self = self\<lparr>BaseRegQueryInfoKeyRes.Values := v\<rparr>
           in case Read_uint32 r le of
                Inl e \<Rightarrow> (self, Some e)
              | Inr (v, r) \<Rightarrow>
           (let self = self\<lparr>BaseRegQueryInfoKeyRes.MaxValueNameLen := v\<rparr>
            in case Read_uint32 r le of
                 Inl e \<Rightarrow> (self, Some e)
               | Inr (v, r) \<Rightarrow>
            (let self = self\<lparr>BaseRegQueryInfoKeyRes.MaxValueLen := v\<rparr>
             in case Read_uint32 r le of
                  Inl e \<Rightarrow> (self, Some e)
                | Inr (v, r) \<Rightarrow>
             (let self = self\<lparr>BaseRegQueryInfoKeyRes.SecurityDescriptor := v\<rparr>
              in case Read_uint32 r le of
                   Inl e \<Rightarrow> (self, Some e)
                 | Inr (v, r) \<Rightarrow>
              (let self = self\<lparr>BaseRegQueryInfoKeyRes.LastWriteTime :=
                                 (BaseRegQueryInfoKeyRes.LastWriteTime self)
                                   \<lparr>Filetime.LowDateTime := v\<rparr>\<rparr>
               in case Read_uint32 r le of
                    Inl e \<Rightarrow> (self, Some e)
                  | Inr (v, r) \<Rightarrow>
               (let self = self\<lparr>BaseRegQueryInfoKeyRes.LastWriteTime :=
                                  (BaseRegQueryInfoKeyRes.LastWriteTime self)
                                    \<lparr>Filetime.HighDateTime := v\<rparr>\<rparr>
                in case Read_uint32 r le of
                     Inl e \<Rightarrow> (self, Some e)
                   | Inr (v, r) \<Rightarrow>
                       (self\<lparr>BaseRegQueryInfoKeyRes.ReturnCode := v\<rparr>, None)))))))))))))"

definition BaseRegQueryValueRes_UnmarshalBinary ::
  "'sd msdtyp \<Rightarrow> BaseRegQueryValueRes \<Rightarrow> byte list \<Rightarrow> BaseRegQueryValueRes \<times> error option" where
  "BaseRegQueryValueRes_UnmarshalBinary c self buf =
     (let r = NewReader buf
      in case Seek r 4 SeekCurrent of
           Inl e \<Rightarrow> (self, Some e)
         | Inr r \<Rightarrow>
      (case Read_uint32 r le of
         Inl e \<Rightarrow> (self, Some e)
       | Inr (v, r) \<Rightarrow>
      (let self = self\<lparr>BaseRegQueryValueRes.Type := v\<rparr>
       in case ReadConformantVaryingArrayPtr c r of (data, err, r) \<Rightarrow>
       (let self = self\<lparr>BaseRegQueryValueRes.Data := data\<rparr>
        in case err of Some e \<Rightarrow> (self, Some e) | None \<Rightarrow>
        (case Seek r 4 SeekCurrent of
           Inl e \<Rightarrow> (self, Some e)
         | Inr r \<Rightarrow>
        (case Read_uint32 r le of
           Inl e \<Rightarrow> (self, Some e)
         | Inr (v, r) \<Rightarrow>
        (let self = self\<lparr>BaseRegQueryValueRes.DataLen := v\<rparr>
         in case Seek r 4 SeekCurrent of
              Inl e \<Rightarrow> (self, Some e)
            | Inr r \<Rightarrow>
         (case Read_uint32 r le of
            Inl e \<Rightarrow> (self, Some e)
          | Inr (v, r) \<Rightarrow>
         (let self = self\<lparr>BaseRegQueryValueRes.MaxLen := v\<rparr>
          in case Read_uint32 r le of
               Inl e \<Rightarrow> (self, Some e)
             | Inr (v, r) \<Rightarrow>
                 (self\<lparr>BaseRegQueryValueRes.ReturnCode := v\<rparr>, None))))))))))"

section \<open>Operation catalogue: the directions that are not implemented\<close>

definition ReturnCode_MarshalBinary :: "ReturnCode \<Rightarrow> ReturnCode \<times> (error + byte list)" where
  "ReturnCode_MarshalBinary self =
     (self, Inl (Errorf ''NOT IMPLEMENTED MarshalBinary for ReturnCode''))"

definition BaseRegCreateKeyReq_UnmarshalBinary ::
  "'sd BaseRegCreateKeyReq \<Rightarrow> byte list \<Rightarrow> 'sd BaseRegCreateKeyReq \<times> error option" where
  "BaseRegCreateKeyReq_UnmarshalBinary self buf =
     (self, Some (Errorf ''NOT IMPLEMENTED UnmarshalBinary for BaseRegCreateKeyReq''))"

definition BaseRegCreateKeyRes_MarshalBinary ::
  "BaseRegCreateKeyRes \<Rightarrow> BaseRegCreateKeyRes \<times> (error + byte list)" where
  "BaseRegCreateKeyRes_MarshalBinary self =
     (self, Inl (Errorf ''NOT IMPLEMENTED MarshalBinary for BaseRegCreateKeyReq''))"

definition BaseRegDeleteKeyReq_UnmarshalBinary ::
  "BaseRegDeleteKeyReq \<Rightarrow> byte list \<Rightarrow> BaseRegDeleteKeyReq \<times> error option" where
  "BaseRegDeleteKeyReq_UnmarshalBinary self buf =
     (self, Some (Errorf ''NOT IMPLEMENTED UnmarshalBinary for BaseRegDeleteKeyReq''))"

definition BaseRegDeleteValueReq_UnmarshalBinary ::
  "BaseRegDeleteValueReq \<Rightarrow> byte list \<Rightarrow> BaseRegDeleteValueReq \<times> error option" where
  "BaseRegDeleteValueReq_UnmarshalBinary self buf =
     (self, Some (Errorf ''NOT IMPLEMENTED UnmarshalBinary for BaseRegDeleteValueReq''))"

definition BaseRegEnumKeyReq_UnmarshalBinary ::
  "BaseRegEnumKeyReq \<Rightarrow> byte list \<Rightarrow> BaseRegEnumKeyReq \<times> error option" where
  "BaseRegEnumKeyReq_UnmarshalBinary self buf =
     (self, Some (Errorf ''NOT IMPLEMENTED UnmarshalBinary for BaseRegEnumKeyReq''))"

definition BaseRegEnumKeyRes_MarshalBinary ::
  "BaseRegEnumKeyRes \<Rightarrow> BaseRegEnumKeyRes \<times> (error + byte list)" where
  "BaseRegEnumKeyRes_MarshalBinary self =
     (self, Inl (Errorf ''NOT IMPLEMENTED MarshalBinary for BaseRegEnumKeyRes''))"

definition BaseRegEnumValueReq_UnmarshalBinary ::
  "BaseRegEnumValueReq \<Rightarrow> byte list \<Rightarrow> BaseRegEnumValueReq \<times> error option" where
  "BaseRegEnumValueReq_UnmarshalBinary self buf =
     (self, Some (Errorf ''NOT IMPLEMENTED UnmarshalBinary for BaseRegEnumValueReq''))"

definition BaseRegEnumValueRes_MarshalBinary ::
  "BaseRegEnumValueRes \<Rightarrow> BaseRegEnumValueRes \<times> (error + byte list)" where
  "BaseRegEnumValueRes_MarshalBinary self =
     (self, Inl (Errorf ''NOT IMPLEMENTED MarshalBinary for BaseRegEnumValueRes''))"

definition BaseRegGetKeySecurityReq_UnmarshalBinary ::
  "'sd BaseRegGetKeySecurityReq \<Rightarrow> byte list \<Rightarrow> 'sd BaseRegGetKeySecurityReq \<times> error option" where
  "BaseRegGetKeySecurityReq_UnmarshalBinary self buf =
     (self, Some (Errorf ''NOT IMPLEMENTED UnmarshalBinary for BaseRegGetKeySecurityReq''))"

definition BaseRegGetKeySecurityRes_MarshalBinary ::
  "'sd BaseRegGetKeySecurityRes \<Rightarrow> 'sd BaseRegGetKeySecurityRes \<times> (error + byte list)" where
  "BaseRegGetKeySecurityRes_MarshalBinary self =
     (self, Inl (Errorf ''NOT IMPLEMENTED MarshalBinary for BaseRegGetKeySecurityRes''))"

definition BaseRegOpenKeyReq_UnmarshalBinary ::
  "BaseRegOpenKeyReq \<Rightarrow> byte list \<Rightarrow> BaseRegOpenKeyReq \<times> error option" where
  "BaseRegOpenKeyReq_UnmarshalBinary self buf =
     (self, Some (Errorf ''NOT IMPLEMENTED UnmarshalBinary for BaseRegOpenKeyReq''))"

definition BaseRegQueryInfoKeyReq_UnmarshalBinary ::
  "BaseRegQueryInfoKeyReq \<Rightarrow> byte list \<Rightarrow> BaseRegQueryInfoKeyReq \<times> error option" where
  "BaseRegQueryInfoKeyReq_UnmarshalBinary self buf =
     (self, Some (Errorf ''NOT IMPLEMENTED UnmarshalBinary for BaseRegQueryInfoKeyReq''))"

definition BaseRegQueryInfoKeyRes_MarshalBinary ::
  "BaseRegQueryInfoKeyRes \<Rightarrow> BaseRegQueryInfoKeyRes \<times> (error + byte list)" where
  "BaseRegQueryInfoKeyRes_MarshalBinary self =
     (self, Inl (Errorf ''NOT IMPLEMENTED MarshalBinary for BaseRegQueryInfoKeyRes''))"

definition BaseRegQueryValueReq_UnmarshalBinary ::
  "BaseRegQueryValueReq \<Rightarrow> byte list \<Rightarrow> BaseRegQueryValueReq \<times> error option" where
  "BaseRegQueryValueReq_UnmarshalBinary self buf =
     (self, Some (Errorf ''NOT IMPLEMENTED UnmarshalBinary for BaseRegQueryValueReq''))"

definition BaseRegQueryValueRes_MarshalBinary ::
  "BaseRegQueryValueRes \<Rightarrow> BaseRegQueryValueRes \<times> (error + byte list)" where
  "BaseRegQueryValueRes_MarshalBinary self =
     (self, Inl (Errorf ''NOT IMPLEMENTED MarshalBinary for BaseRegQueryValueRes''))"

definition BaseRegSaveKeyReq_UnmarshalBinary ::
  "'sd BaseRegSaveKeyReq \<Rightarrow> byte list \<Rightarrow> 'sd BaseRegSaveKeyReq \<times> error option" where
  "BaseRegSaveKeyReq_UnmarshalBinary self buf =
     (self, Some (Errorf ''NOT IMPLEMENTED UnmarshalBinary for BaseRegSaveKeyReq''))"

definition BaseRegSetKeySecurityReq_UnmarshalBinary ::
  "'sd BaseRegSetKeySecurityReq \<Rightarrow> byte list \<Rightarrow> 'sd BaseRegSetKeySecurityReq \<times> error option" where
  "BaseRegSetKeySecurityReq_UnmarshalBinary self buf =
     (self, Some (Errorf ''NOT IMPLEMENTED UnmarshalBinary for BaseRegSetKeySecurityReq''))"

definition RpcSecurityAttributes_UnmarshalBinary ::
  "'sd RpcSecurityAttributes \<Rightarrow> byte list \<Rightarrow> 'sd RpcSecurityAttributes \<times> error option" where
  "RpcSecurityAttributes_UnmarshalBinary self buf =
     (self, Some (Errorf ''NOT IMPLEMENTED UnmarshalBinary for RpcSecurityAttributes''))"

definition BaseRegSetValueReq_UnmarshalBinary ::
  "BaseRegSetValueReq \<Rightarrow> byte list \<Rightarrow> BaseRegSetValueReq \<times> error option" where
  "BaseRegSetValueReq_UnmarshalBinary self buf =
     (self, Some (Errorf ''NOT IMPLEMENTED UnmarshalBinary for BaseRegSetValueReq''))"

text \<open>The kinds of error, read from the messages.\<close>

definition is_NotImplemented :: "error \<Rightarrow> bool" where
  "is_NotImplemented e = (case e of Errorf m \<Rightarrow> take 15 m = ''NOT IMPLEMENTED'' | _ \<Rightarrow> False)"


definition is_BufferTooShort :: "error \<Rightarrow> bool" where
  "is_BufferTooShort e =
     (case e of
        Errorf m \<Rightarrow> take 16 m = ''Buffer too short'' \<or> take 15 m = ''Buffer to short''
                      \<or> take 16 m = ''Buffer too small''
      | _ \<Rightarrow> False)"

text \<open>
  A call fails with a given kind of error and leaves the receiver as it was.
\<close>

definition fails_NotImplemented_unmarshal :: "'a \<times> error option \<Rightarrow> 'a \<Rightarrow> bool" where
  "fails_NotImplemented_unmarshal res self =
     (fst res = self \<and> (case snd res of Some e \<Rightarrow> is_NotImplemented e | None \<Rightarrow> False))"

definition fails_NotImplemented_marshal :: "'a \<times> (error + byte list) \<Rightarrow> 'a \<Rightarrow> bool" where
  "fails_NotImplemented_marshal res self =
     (fst res = self \<and> (case snd res of Inl e \<Rightarrow> is_NotImplemented e | Inr b \<Rightarrow> False))"


text \<open>
  A collaborator to run the catalogue on examples: the descriptor is its own blob, an array
  is written as its three counts and its bytes, and the readers return no data.
\<close>

definition msdtyp_example :: "byte list msdtyp" where
  "msdtyp_example =
     \<lparr>SD_MarshalBinary = (\<lambda>sd. case sd of None \<Rightarrow> Inr [] | Some b \<Rightarrow> Inr b),
      SD_UnmarshalBinary = (\<lambda>b. Inr b),
      WriteConformantVaryingArray =
        (\<lambda>data maxCount. Inr (PutUint32 le maxCount @ PutUint32 le 0
                                 @ PutUint32 le (of_nat (length data)) @ data)),
      WriteConformantArray = (\<lambda>data. Inr (PutUint32 le (of_nat (length data)) @ data)),
      ReadConformantVaryingArray = (\<lambda>r. ([], None, r)),
      ReadConformantVaryingArrayPtr = (\<lambda>r. ([], None, r))\<rparr>"

text \<open>
  The string struct as \<open>writeRRPUnicodeStr\<close> leaves it. (It depends neither on the buffer
  and the byte order nor on the counter and the flag: lemma \<open>writeRRPUnicodeStr_struct\<close>.)
\<close>

definition after_write :: "RRPUnicodeStr \<Rightarrow> RRPUnicodeStr" where
  "after_write us = fst (snd (writeRRPUnicodeStr [] le us 1 False))"


section \<open>Basic facts\<close>

lemma Uint32_PutUint32 [simp]: "Uint32 bo (PutUint32 bo v @ bs) = Inr v"
proof -
  have "ucast (ucast v :: byte) OR push_bit 8 (ucast (ucast (drop_bit 8 v) :: byte))
        OR push_bit 16 (ucast (ucast (drop_bit 16 v) :: byte))
        OR push_bit 24 (ucast (ucast (drop_bit 24 v) :: byte)) = v"
    apply (rule bit_word_eqI)
    subgoal for n
      by (cases "n < 8"; cases "n < 16"; cases "n < 24") (auto simp add: bit_simps)
    done
  then show ?thesis by (cases bo) simp_all
qed


lemma length_PutUint32 [simp]: "length (PutUint32 bo v) = 4"
  by (cases bo) simp_all

lemma length_PutUint16 [simp]: "length (PutUint16 bo v) = 2"
  by (cases bo) simp_all

lemma unat_consumed:
  "unat (off * 2 + ac * 2 :: uint32) mod 4 = (unat off * 2 + unat ac * 2) mod 4"
proof -
  have "unat (off * 2 + ac * 2) = (unat off * 2 + unat ac * 2) mod 2 ^ 32"
    by (simp add: unat_word_ariths mod_simps)
  moreover have "(unat off * 2 + unat ac * 2) mod 2 ^ 32 mod 4 = (unat off * 2 + unat ac * 2) mod 4"
    by (rule mod_mod_cancel) simp
  ultimately show ?thesis by simp
qed

lemma unat_paddLen: "unat (paddLen off ac) = 4 - (unat off * 2 + unat ac * 2) mod 4"
proof -
  let ?m = "(off * 2 + ac * 2) mod 4 :: uint32"
  have m: "unat ?m = (unat off * 2 + unat ac * 2) mod 4"
    by (simp add: unat_mod unat_consumed)
  have "?m \<le> 4" by (simp add: word_le_nat_alt m)
  then have "unat (4 - ?m) = unat (4 :: uint32) - unat ?m" by (rule unat_sub)
  then show ?thesis by (simp add: paddLen_def m)
qed

lemma paddLen_skip:
  "(if paddLen off ac \<noteq> 4 then unat (paddLen off ac) else 0)
     = (4 - (unat off * 2 + unat ac * 2) mod 4) mod 4"
proof -
  have "paddLen off ac = 4 \<longleftrightarrow> unat (paddLen off ac) = 4"
    by (simp add: word_unat_eq_iff)
  then show ?thesis by (auto simp add: unat_paddLen)
qed

lemma replicate_2: "replicate 2 x = [x, x]"
  by (simp add: numeral_2_eq_2)

section \<open>The conformant-varying string\<close>

lemma readCVS_position:
  assumes "Read_uint32 r le = Inr (maxCount, r1)" and "maxCount \<noteq> 0"
    and "Read_uint32 r1 le = Inr (offset, r2)"
    and "Read_uint32 r2 le = Inr (actualCount, r3)"
    and "readConformantVaryingString r = (s, None, r')"
  shows "rd_i r' = rd_i r3 + int (unat offset) * 2 + int (unat (actualCount * 2))
           + int (if paddLen offset actualCount \<noteq> 4 then unat (paddLen offset actualCount) else 0)"
  using assms
  by (auto simp add: readConformantVaryingString_def Seek_def Read_bytes_def ReadFull_def Let_def
        word_greater_zero_iff unat_eq_zero
      split: if_splits sum.splits prod.splits)

lemma NewUnicodeStr_paddlen:
  assumes "NewUnicodeStr s nt = (off_w, count, paddlen, buffer)"
  shows "paddlen = (4 - (unat off_w * 2 + unat count * 2) mod 4) mod 4" and "off_w = 0"
  using assms unat_consumed [of off_w count]
  by (auto simp add: NewUnicodeStr_def Let_def)

lemma writeCVS_bytes:
  assumes "NewUnicodeStr (RRPUnicodeStr.S us) True = (off_w, count, paddlen, buffer)"
  shows "fst (writeConformantVaryingString w bo us)
        = w @ PutUint32 bo (ucast (RRPUnicodeStr.MaxLength us)) @ PutUint32 bo off_w
            @ PutUint32 bo (if RRPUnicodeStr.S us = [] then 0 else count)
            @ (if RRPUnicodeStr.S us = [] then [] else buffer)
            @ replicate ((4 - (unat off_w * 2
                 + unat (if RRPUnicodeStr.S us = [] then 0 else count) * 2) mod 4) mod 4) 0"
  using assms NewUnicodeStr_paddlen [OF assms]
  by (simp add: writeConformantVaryingString_def Let_def)

lemma eval_NewUnicodeStr_ab: "NewUnicodeStr [97, 98] True = (0, 3, 2, [97, 0, 98, 0, 0, 0])"
  by (simp add: NewUnicodeStr_def NullTerminate_def ToUnicode_def utf16_Encode_def
        EncodeRune16_def is_surrogate_def Let_def)

lemma length_concat_PutUint16: "length (concat (map (PutUint16 bo) us)) = 2 * length us"
  by (induction us) simp_all

lemma length_ToUnicode: "length (ToUnicode s) = 2 * length (utf16_Encode s)"
  by (simp add: ToUnicode_def length_concat_PutUint16)

lemma NewUnicodeStr_True:
  "NewUnicodeStr s True =
     (0, of_nat (length (utf16_Encode (NullTerminate s))),
      (4 - length (ToUnicode (NullTerminate s)) mod 4) mod 4, ToUnicode (NullTerminate s))"
proof -
  let ?n = "length (utf16_Encode (NullTerminate s))"
  have "unat ((of_nat ?n :: uint32) * 2) mod 4 = (2 * ?n) mod 4"
  proof -
    have "unat ((of_nat ?n :: uint32) * 2) mod 4 = (unat (0 :: uint32) * 2 + unat (of_nat ?n :: uint32) * 2) mod 4"
      using unat_consumed [of 0 "of_nat ?n"] by simp
    also have "\<dots> = (2 * (?n mod 2 ^ 32)) mod 4"
      by (simp add: unat_of_nat mult.commute)
    also have "\<dots> = 2 * ((?n mod 2 ^ 32) mod 2)"
      using mult_mod_right [of 2 "?n mod 2 ^ 32" 2] by simp
    also have "(?n mod 2 ^ 32) mod 2 = ?n mod 2"
      by (rule mod_mod_cancel) simp
    also have "2 * (?n mod 2) = (2 * ?n) mod 4"
      using mult_mod_right [of 2 ?n 2] by simp
    finally show ?thesis .
  qed
  then show ?thesis
    by (auto simp add: NewUnicodeStr_def Let_def length_ToUnicode)
qed

text \<open>
  Claim C3, as the code has it. For a non-empty string, \<open>writeConformantVaryingString\<close>
  writes \<open>MaxCount\<close> = the field \<open>MaxLength\<close> of the string struct (the comment of the
  function: the \<open>MaxLength\<close> of the \<open>RRPUnicodeStr\<close> is encoded here), \<open>Offset\<close> = 0 and
  \<open>ActualCount\<close> = the number of UTF-16 code units of the null-terminated string, then the
  UTF-16LE bytes and the zero padding to a multiple of 4 bytes. Offset, count and bytes are
  those of \<open>msdtyp.NewUnicodeStr\<close>, modelled from the spec.
\<close>

theorem conformant_varying_header:
  "RRPUnicodeStr.S us \<noteq> [] \<Longrightarrow>
   fst (writeConformantVaryingString w bo us)
     = w @ PutUint32 bo (ucast (RRPUnicodeStr.MaxLength us)) @ PutUint32 bo 0
         @ PutUint32 bo (of_nat (length (utf16_Encode (NullTerminate (RRPUnicodeStr.S us)))))
         @ ToUnicode (NullTerminate (RRPUnicodeStr.S us))
         @ replicate ((4 - length (ToUnicode (NullTerminate (RRPUnicodeStr.S us))) mod 4) mod 4) 0"
  by (simp add: writeConformantVaryingString_def NewUnicodeStr_True)

theorem conformant_varying_header_witness:
  "fst (writeConformantVaryingString [] le \<lparr>RRPUnicodeStr.MaxLength = 10, S = [97]\<rparr>)
     = [10, 0, 0, 0, 0, 0, 0, 0, 2, 0, 0, 0, 97, 0, 0, 0]"
  using conformant_varying_header [of "\<lparr>RRPUnicodeStr.MaxLength = 10, S = [97]\<rparr>" "[]" le]
  by (simp add: NullTerminate_def ToUnicode_def utf16_Encode_def EncodeRune16_def is_surrogate_def)

text \<open>
  Claim C3 as stated fails: with \<open>MaxLength = 10\<close> and the string \<open>a\<close>, the \<open>MaxCount\<close>
  written is 10, while the actual element count (and \<open>ActualCount\<close>) is 2.
\<close>

theorem MaxCount_counterexample:
  "take 4 (fst (writeConformantVaryingString [] le \<lparr>RRPUnicodeStr.MaxLength = 10, S = [97]\<rparr>))
     = PutUint32 le 10
   \<and> take 4 (drop 8 (fst (writeConformantVaryingString [] le
                          \<lparr>RRPUnicodeStr.MaxLength = 10, S = [97]\<rparr>)))
     = PutUint32 le 2
   \<and> length (utf16_Encode (NullTerminate [97])) = 2
   \<and> PutUint32 le 10 \<noteq> PutUint32 le 2"
  by (simp add: writeConformantVaryingString_def NewUnicodeStr_def NullTerminate_def ToUnicode_def
        utf16_Encode_def EncodeRune16_def is_surrogate_def Let_def)

section \<open>Directions that are not implemented\<close>

text \<open>
  Claim C8. Every type of the catalogue that implements one direction only answers the
  other one with a \<open>NOT IMPLEMENTED\<close> error and leaves the receiver unchanged: the
  \<open>UnmarshalBinary\<close> of the request-only types (for any buffer) and the \<open>MarshalBinary\<close> of
  the response-only types. The bodies consist of the \<open>fmt.Errorf\<close> alone, so nothing can
  panic.
\<close>

theorem unimplemented_direction:
  "fails_NotImplemented_marshal (ReturnCode_MarshalBinary s1) s1
   \<and> fails_NotImplemented_unmarshal (BaseRegCreateKeyReq_UnmarshalBinary s2 buf) s2
   \<and> fails_NotImplemented_marshal (BaseRegCreateKeyRes_MarshalBinary s3) s3
   \<and> fails_NotImplemented_unmarshal (BaseRegDeleteKeyReq_UnmarshalBinary s4 buf) s4
   \<and> fails_NotImplemented_unmarshal (BaseRegDeleteValueReq_UnmarshalBinary s5 buf) s5
   \<and> fails_NotImplemented_unmarshal (BaseRegEnumKeyReq_UnmarshalBinary s6 buf) s6
   \<and> fails_NotImplemented_marshal (BaseRegEnumKeyRes_MarshalBinary s7) s7
   \<and> fails_NotImplemented_unmarshal (BaseRegEnumValueReq_UnmarshalBinary s8 buf) s8
   \<and> fails_NotImplemented_marshal (BaseRegEnumValueRes_MarshalBinary s9) s9
   \<and> fails_NotImplemented_unmarshal (BaseRegGetKeySecurityReq_UnmarshalBinary s10 buf) s10
   \<and> fails_NotImplemented_marshal (BaseRegGetKeySecurityRes_MarshalBinary s11) s11
   \<and> fails_NotImplemented_unmarshal (BaseRegOpenKeyReq_UnmarshalBinary s12 buf) s12
   \<and> fails_NotImplemented_unmarshal (BaseRegQueryInfoKeyReq_UnmarshalBinary s13 buf) s13
   \<and> fails_NotImplemented_marshal (BaseRegQueryInfoKeyRes_MarshalBinary s14) s14
   \<and> fails_NotImplemented_unmarshal (BaseRegQueryValueReq_UnmarshalBinary s15 buf) s15
   \<and> fails_NotImplemented_marshal (BaseRegQueryValueRes_MarshalBinary s16) s16
   \<and> fails_NotImplemented_unmarshal (BaseRegSaveKeyReq_UnmarshalBinary s17 buf) s17
   \<and> fails_NotImplemented_unmarshal (BaseRegSetKeySecurityReq_UnmarshalBinary s18 buf) s18
   \<and> fails_NotImplemented_unmarshal (RpcSecurityAttributes_UnmarshalBinary s19 buf) s19
   \<and> fails_NotImplemented_unmarshal (BaseRegSetValueReq_UnmarshalBinary s20 buf) s20"
  by (simp add: fails_NotImplemented_marshal_def fails_NotImplemented_unmarshal_def
        is_NotImplemented_def
        ReturnCode_MarshalBinary_def BaseRegCreateKeyReq_UnmarshalBinary_def
        BaseRegCreateKeyRes_MarshalBinary_def BaseRegDeleteKeyReq_UnmarshalBinary_def
        BaseRegDeleteValueReq_UnmarshalBinary_def BaseRegEnumKeyReq_UnmarshalBinary_def
        BaseRegEnumKeyRes_MarshalBinary_def BaseRegEnumValueReq_UnmarshalBinary_def
        BaseRegEnumValueRes_MarshalBinary_def BaseRegGetKeySecurityReq_UnmarshalBinary_def
        BaseRegGetKeySecurityRes_MarshalBinary_def BaseRegOpenKeyReq_UnmarshalBinary_def
        BaseRegQueryInfoKeyReq_UnmarshalBinary_def BaseRegQueryInfoKeyRes_MarshalBinary_def
        BaseRegQueryValueReq_UnmarshalBinary_def BaseRegQueryValueRes_MarshalBinary_def
        BaseRegSaveKeyReq_UnmarshalBinary_def BaseRegSetKeySecurityReq_UnmarshalBinary_def
        RpcSecurityAttributes_UnmarshalBinary_def BaseRegSetValueReq_UnmarshalBinary_def)

section \<open>Key handles\<close>





section \<open>Response decoders\<close>

lemma Uint32_take4: "4 \<le> length bs \<Longrightarrow> Uint32 bo (take 4 bs) = Uint32 bo bs"
proof -
  assume "4 \<le> length bs"
  then obtain b0 b1 b2 b3 rest where "bs = b0 # b1 # b2 # b3 # rest"
    by (cases bs; cases "tl bs"; cases "tl (tl bs)"; cases "tl (tl (tl bs))") auto
  then show ?thesis by (cases bo) simp_all
qed

lemma GetKeySecurityRes_ReturnCode_read:
  assumes "16 \<le> length buf" and "Uint32 le (drop (length buf - 4) buf) = Inr rc"
  shows "Read_uint32 (case Seek (NewReader buf) (- 4) SeekEnd of Inl e \<Rightarrow> NewReader buf | Inr r' \<Rightarrow> r') le
           = Inr (rc, \<lparr>rd_s = buf, rd_i = int (length buf)\<rparr>)"
proof -
  have "Uint32 le (take 4 (drop (length buf - 4) buf)) = Inr rc"
    using assms by (simp add: Uint32_take4)
  then show ?thesis
    using assms(1)
    by (simp add: Seek_def NewReader_def Read_uint32_def ReadFull_def nat_diff_distrib)
qed

text \<open>
  Claim C7. \<open>BaseRegGetKeySecurityRes.UnmarshalBinary\<close> on a buffer of at least 16 bytes
  reads the return code from the last 4 bytes first: whatever happens later, the
  \<open>ReturnCode\<close> of the receiver is this value. When it is not zero, decoding returns no
  error and changes nothing but \<open>ReturnCode\<close>: \<open>SecurityDescriptorOut\<close>, and with it the
  pointer to the descriptor, stays as it was (\<open>nil\<close> in a fresh receiver).
\<close>

theorem GetKeySecurityRes_return_code_first:
  assumes "16 \<le> length buf" and "Uint32 le (drop (length buf - 4) buf) = Inr rc"
  shows "BaseRegGetKeySecurityRes.ReturnCode
           (fst (BaseRegGetKeySecurityRes_UnmarshalBinary c self buf)) = rc
         \<and> (rc \<noteq> 0 \<longrightarrow>
              BaseRegGetKeySecurityRes_UnmarshalBinary c self buf
                = (self\<lparr>BaseRegGetKeySecurityRes.ReturnCode := rc\<rparr>, None))"
  using assms(1) GetKeySecurityRes_ReturnCode_read [OF assms]
  by (auto simp add: BaseRegGetKeySecurityRes_UnmarshalBinary_def Let_def
      split: sum.splits prod.splits option.splits)

theorem GetKeySecurityRes_return_code_first_witness:
  "BaseRegGetKeySecurityRes_UnmarshalBinary msdtyp_example
     \<lparr>SecurityDescriptorOut = \<lparr>RpcSecurityDescriptor.SecurityDescriptor = None,
          InSecurityDescriptor = 0, OutSecurityDescriptor = 0\<rparr>,
        ReturnCode = 0\<rparr>
     [1, 0, 0, 0, 9, 9, 9, 9, 9, 9, 9, 9, 5, 0, 0, 0]
   = (\<lparr>SecurityDescriptorOut = \<lparr>RpcSecurityDescriptor.SecurityDescriptor = None,
          InSecurityDescriptor = 0, OutSecurityDescriptor = 0\<rparr>,
        ReturnCode = 5\<rparr>, None)"
  using GetKeySecurityRes_return_code_first
    [of "[1, 0, 0, 0, 9, 9, 9, 9, 9, 9, 9, 9, 5, 0, 0, 0]" 5 msdtyp_example
        "\<lparr>SecurityDescriptorOut = \<lparr>RpcSecurityDescriptor.SecurityDescriptor = None,
          InSecurityDescriptor = 0, OutSecurityDescriptor = 0\<rparr>,
        ReturnCode = 0\<rparr>"]
  by simp

text \<open>
  Claim C4 at \<open>BaseRegQueryInfoKeyRes\<close>. The decoder has no check of the length: on a
  buffer of 12 bytes it reads \<open>ClassOut\<close> and \<open>SubKeys\<close> into the receiver and then fails
  with \<open>io.EOF\<close>, which is no too-short error. \<open>BaseRegEnumKeyRes\<close> rejects the same buffer
  with its too-short error before it reads anything.
\<close>

theorem QueryInfoKeyRes_short_buffer:
  "BaseRegQueryInfoKeyRes_UnmarshalBinary self [0, 0, 4, 0, 0, 0, 0, 0, 7, 0, 0, 0]
     = (self\<lparr>BaseRegQueryInfoKeyRes.ClassOut := \<lparr>RPCUnicodeStr.MaxLength = 4, S = []\<rparr>,
             BaseRegQueryInfoKeyRes.SubKeys := 7\<rparr>, Some EOF)
   \<and> \<not> is_BufferTooShort EOF
   \<and> BaseRegEnumKeyRes_UnmarshalBinary self' [0, 0, 4, 0, 0, 0, 0, 0, 7, 0, 0, 0]
     = (self', Some (Errorf ''Buffer too short for BaseRegEnumKeyRes''))
   \<and> is_BufferTooShort (Errorf ''Buffer too short for BaseRegEnumKeyRes'')"
  by (simp add: BaseRegQueryInfoKeyRes_UnmarshalBinary_def BaseRegEnumKeyRes_UnmarshalBinary_def
        readRPCUnicodeStr_def Read_uint16_def Read_uint32_def ReadFull_def NewReader_def Seek_def
        is_BufferTooShort_def)

section \<open>Referent IDs\<close>

text \<open>
  Claim C10. When the descriptor marshals (and the array writer succeeds),
  \<open>writeRPCSecurityAttributes\<close> entered with the counter at \<open>r\<close> writes the referent IDs
  \<open>r\<close> and \<open>r + 2\<close> (\<open>uint32\<close> arithmetic), with the length between them; \<open>r + 1\<close> is
  consumed by the two increments between the writes and is not written as a referent ID;
  the counter leaves as \<open>r + 3\<close>.
\<close>

theorem writeRPCSecurityAttributes_referents:
  assumes "SD_MarshalBinary c (RpcSecurityDescriptor.SecurityDescriptor
                                 (RpcSecurityAttributes.SecurityDescriptor sa)) = Inr buf"
    and "WriteConformantVaryingArray c buf 0 = Inr body"
  shows "writeRPCSecurityAttributes c w bo sa r
           = (w @ PutUint32 bo r
                @ PutUint32 bo (if RpcSecurityAttributes.Length sa < of_nat (length buf)
                                then of_nat (length buf) else RpcSecurityAttributes.Length sa)
                @ PutUint32 bo (r + 2)
                @ PutUint32 bo (of_nat (length buf)) @ PutUint32 bo (of_nat (length buf))
                @ PutUint32 le (ucast (RpcSecurityAttributes.InheritHandle sa))
                @ body,
              r + 3, None)"
  using assms by (simp add: writeRPCSecurityAttributes_def Let_def ac_simps)



theorem writeRPCSecurityAttributes_referents_witness:
  "writeRPCSecurityAttributes msdtyp_example [] le
     \<lparr>RpcSecurityAttributes.Length = 0,
        SecurityDescriptor = \<lparr>RpcSecurityDescriptor.SecurityDescriptor = Some [1, 2, 3],
          InSecurityDescriptor = 0, OutSecurityDescriptor = 0\<rparr>,
        InheritHandle = 1\<rparr> 3
   = ([3, 0, 0, 0, 3, 0, 0, 0, 5, 0, 0, 0, 3, 0, 0, 0, 3, 0, 0, 0, 1, 0, 0, 0,
       0, 0, 0, 0, 0, 0, 0, 0, 3, 0, 0, 0, 1, 2, 3], 6, None)"
  using writeRPCSecurityAttributes_referents
    [of msdtyp_example
        "\<lparr>RpcSecurityAttributes.Length = 0,
        SecurityDescriptor = \<lparr>RpcSecurityDescriptor.SecurityDescriptor = Some [1, 2, 3],
          InSecurityDescriptor = 0, OutSecurityDescriptor = 0\<rparr>,
        InheritHandle = 1\<rparr>" "[1, 2, 3]" "[0, 0, 0, 0, 0, 0, 0, 0, 3, 0, 0, 0, 1, 2, 3]" "[]" le 3]
  by (simp add: msdtyp_example_def)


text \<open>what writeRRPUnicodeStr leaves in the struct\<close>
lemma writeRRPUnicodeStr_struct:
  "fst (snd (writeRRPUnicodeStr w bo us r optional))
     = (if RRPUnicodeStr.S us = [] then us
        else \<lparr>RRPUnicodeStr.MaxLength =
                 (if RRPUnicodeStr.MaxLength us < of_nat (len_str (NullTerminate (RRPUnicodeStr.S us)))
                  then of_nat (len_str (NullTerminate (RRPUnicodeStr.S us)))
                  else RRPUnicodeStr.MaxLength us),
               S = NullTerminate (RRPUnicodeStr.S us)\<rparr>)"
  by (cases us) (simp add: writeRRPUnicodeStr_def Let_def len_str_def split: prod.splits)


lemma NullTerminate_nonempty [simp]: "NullTerminate s \<noteq> []"
  by (simp add: NullTerminate_def)




lemma writeRRPUnicodeStr_after_write:
  "fst (snd (writeRRPUnicodeStr w bo us r optional)) = after_write us"
  by (simp only: after_write_def writeRRPUnicodeStr_struct)


section \<open>Encoding rewrites the request\<close>

lemma writeRRPUnicodeStr_eqD:
  "writeRRPUnicodeStr w bo us r optional = (w', us', r') \<Longrightarrow> us' = after_write us"
  using writeRRPUnicodeStr_after_write [of w bo us r optional] by simp















section \<open>Round trip of the null-terminated string\<close>

lemma unit_of_PutUint16:
  "(ucast (ucast v :: byte) OR push_bit 8 (ucast (ucast (drop_bit 8 v) :: byte)) :: uint16) = v"
  apply (rule bit_word_eqI)
  subgoal for n
    by (cases "n < 8") (auto simp add: bit_simps)
  done

lemma units_of_bytes_ToUnicode: "units_of_bytes (concat (map (PutUint16 le) us)) = us"
  by (induction us) (simp_all add: unit_of_PutUint16)










lemma len_str_null [simp]: "len_str [0] = 1"
  by (simp add: len_str_def RuneLen_def)

lemma Read_uint32_drop:
  assumes "0 \<le> rd_i r" and "drop (nat (rd_i r)) (rd_s r) = PutUint32 bo v @ rest"
  shows "Read_uint32 r bo = Inr (v, r\<lparr>rd_i := rd_i r + 4\<rparr>)"
    and "drop (nat (rd_i r + 4)) (rd_s r) = rest"
proof -
  have len: "length (rd_s r) - nat (rd_i r) = 4 + length rest"
    using arg_cong [OF assms(2), of length] by simp
  have tk: "take 4 (drop (nat (rd_i r)) (rd_s r)) = PutUint32 bo v"
    by (simp add: assms(2))
  have "Uint32 bo (PutUint32 bo v @ []) = Inr v" by (rule Uint32_PutUint32)
  then have u: "Uint32 bo (PutUint32 bo v) = Inr v" by simp
  show "Read_uint32 r bo = Inr (v, r\<lparr>rd_i := rd_i r + 4\<rparr>)"
    using len assms(1) by (simp add: Read_uint32_def ReadFull_def tk u)
  have "drop (nat (rd_i r + 4)) (rd_s r) = drop 4 (drop (nat (rd_i r)) (rd_s r))"
    using assms(1) by (simp add: nat_add_distrib add.commute)
  then show "drop (nat (rd_i r + 4)) (rd_s r) = rest"
    by (simp add: assms(2))
qed


lemma Read_bytes_drop:
  assumes "0 \<le> rd_i r" and "drop (nat (rd_i r)) (rd_s r) = bs @ rest" and "n = length bs"
  shows "Read_bytes r n = Inr (bs, r\<lparr>rd_i := rd_i r + int n\<rparr>)"
proof (cases "n = 0")
  case True
  then show ?thesis using assms(3) by (simp add: Read_bytes_def ReadFull_def)
next
  case False
  have len: "length (rd_s r) - nat (rd_i r) = n + length rest"
    using arg_cong [OF assms(2), of length] assms(3) by simp
  have tk: "take n (drop (nat (rd_i r)) (rd_s r)) = bs"
    by (simp add: assms(2) assms(3))
  show ?thesis
    using len assms(1) False by (simp add: Read_bytes_def ReadFull_def tk)
qed

lemma ucast16_32_eq_0: "(ucast (x :: uint16) :: uint32) = 0 \<longleftrightarrow> x = 0"
proof
  assume a: "(ucast x :: uint32) = 0"
  have "unat x < 2 ^ 16" using unsigned_less [of x, where 'a = nat] by simp
  then have "unat x < 2 ^ 32" by simp
  then have "take_bit 32 (unat x) = unat x" by (rule take_bit_nat_eq_self)
  then have "unat (ucast x :: uint32) = unat x"
    by (simp add: unsigned_ucast_eq)
  with a show "x = 0" by (simp add: unat_eq_zero)
qed simp









lemma writeCVS_nonempty:
  "RRPUnicodeStr.S us \<noteq> [] \<Longrightarrow>
   fst (writeConformantVaryingString w bo us)
     = w @ PutUint32 bo (ucast (RRPUnicodeStr.MaxLength us)) @ PutUint32 bo 0
         @ PutUint32 bo (of_nat (length (utf16_Encode (NullTerminate (RRPUnicodeStr.S us)))))
         @ ToUnicode (NullTerminate (RRPUnicodeStr.S us))
         @ replicate ((4 - length (ToUnicode (NullTerminate (RRPUnicodeStr.S us))) mod 4) mod 4) 0"
  by (simp add: writeConformantVaryingString_def NewUnicodeStr_True)

lemma NullTerminate_idem [simp]: "NullTerminate (NullTerminate s) = NullTerminate s"
  by (simp add: NullTerminate_def)

lemma Seek_current_ok:
  "0 \<le> rd_i r \<Longrightarrow> 0 \<le> k \<Longrightarrow> Seek r k SeekCurrent = Inr (r\<lparr>rd_i := rd_i r + k\<rparr>)"
  by (simp add: Seek_def)









section \<open>The padding rule on both sides\<close>

lemma readCVS_total:
  assumes i0: "0 \<le> rd_i r" and mc: "maxCount \<noteq> 0"
    and buf: "drop (nat (rd_i r)) (rd_s r)
        = PutUint32 le maxCount @ PutUint32 le offset @ PutUint32 le actualCount
          @ skipped @ elems @ rest"
    and ls: "length skipped = 2 * unat offset"
    and le: "length elems = unat (actualCount * 2)"
  shows "readConformantVaryingString r
     = (utf16_Decode (units_of_bytes elems), None,
        r\<lparr>rd_i := rd_i r + 12 + int (2 * unat offset) + int (unat (actualCount * 2))
                 + int ((4 - (unat offset * 2 + unat actualCount * 2) mod 4) mod 4)\<rparr>)"
proof -
  define i where "i = rd_i r"
  define P where "P = (if paddLen offset actualCount \<noteq> 4
                        then unat (paddLen offset actualCount) else 0)"
  define D where "D = utf16_Decode (units_of_bytes elems)"
  define R1 where "R1 = r\<lparr>rd_i := i + 4\<rparr>"
  define R2 where "R2 = r\<lparr>rd_i := i + 8\<rparr>"
  define R3 where "R3 = r\<lparr>rd_i := i + 12\<rparr>"
  define R4 where "R4 = r\<lparr>rd_i := i + 12 + int (2 * unat offset)\<rparr>"
  define R6 where "R6 = r\<lparr>rd_i := i + 12 + int (2 * unat offset) + int (unat (actualCount * 2))\<rparr>"
  define R7 where "R7 = r\<lparr>rd_i := i + 12 + int (2 * unat offset) + int (unat (actualCount * 2))
                               + int P\<rparr>"
  have i0': "0 \<le> i" using i0 by (simp add: i_def)
  have s1: "Read_uint32 r le = Inr (maxCount, R1)"
    and d1: "drop (nat (i + 4)) (rd_s r)
        = PutUint32 le offset @ PutUint32 le actualCount @ skipped @ elems @ rest"
    using Read_uint32_drop [of r le maxCount
        "PutUint32 le offset @ PutUint32 le actualCount @ skipped @ elems @ rest"] i0 buf
    by (simp_all add: i_def R1_def del: PutUint32.simps)
  have s2: "Read_uint32 R1 le = Inr (offset, R2)"
    and d2: "drop (nat (i + 8)) (rd_s r) = PutUint32 le actualCount @ skipped @ elems @ rest"
    using Read_uint32_drop [of R1 le offset
        "PutUint32 le actualCount @ skipped @ elems @ rest"] i0' d1
    by (simp_all add: R1_def R2_def ac_simps del: PutUint32.simps)
  have s3: "Read_uint32 R2 le = Inr (actualCount, R3)"
    and d3: "drop (nat (i + 12)) (rd_s r) = skipped @ elems @ rest"
    using Read_uint32_drop [of R2 le actualCount "skipped @ elems @ rest"] i0' d2
    by (simp_all add: R2_def R3_def ac_simps del: PutUint32.simps)
  have sk: "(if 0 < offset then Seek R3 (int (unat offset) * 2) SeekCurrent else Inr R3) = Inr R4"
  proof (cases "0 < offset")
    case True
    have "\<not> i + 12 + int (unat offset) * 2 < 0" using i0' by linarith
    then show ?thesis using True
      by (simp add: Seek_def Let_def R3_def R4_def del: of_nat_unat)
  next
    case False
    then have "offset = 0" by (simp add: word_greater_zero_iff)
    then show ?thesis by (simp add: R3_def R4_def)
  qed
  have "nat (i + 12 + int (2 * unat offset)) = nat (i + 12) + 2 * unat offset"
    using i0' by arith
  then have "drop (nat (i + 12 + int (2 * unat offset))) (rd_s r)
          = drop (2 * unat offset) (drop (nat (i + 12)) (rd_s r))"
    by (simp only: drop_drop add.commute)
  then have d4: "drop (nat (rd_i R4)) (rd_s R4) = elems @ rest"
    using ls by (simp add: d3 R4_def del: of_nat_unat of_nat_mult)
  have rb: "Read_bytes R4 (unat (actualCount * 2)) = Inr (elems, R6)"
  proof -
    have "0 \<le> rd_i R4" using i0' by (simp add: R4_def del: of_nat_unat of_nat_mult)
    then have "Read_bytes R4 (unat (actualCount * 2))
        = Inr (elems, R4\<lparr>rd_i := rd_i R4 + int (unat (actualCount * 2))\<rparr>)"
      using d4 le by (intro Read_bytes_drop [of R4 elems rest]) simp_all
    then show ?thesis by (simp add: R4_def R6_def del: of_nat_unat of_nat_mult)
  qed
  have body: "(if 0 < actualCount
         then (case Read_bytes R4 (unat (actualCount * 2)) of
                 Inl e \<Rightarrow> Inl ([], e)
               | Inr (unc, r5) \<Rightarrow>
                   (case FromUnicodeString unc of
                      Inl e \<Rightarrow> Inl ([], e)
                    | Inr s \<Rightarrow> Inr (s, r5)))
         else Inr ([], R4))
       = Inr (D, R6)"
  proof (cases "0 < actualCount")
    case True
    then show ?thesis by (simp add: rb FromUnicodeString_def D_def)
  next
    case False
    then have z: "actualCount = 0" by (simp add: word_greater_zero_iff)
    then have "elems = []" using le by simp
    then show ?thesis using z by (simp add: D_def R4_def R6_def)
  qed
  have pd: "(if paddLen offset actualCount \<noteq> 4
             then (case Seek R6 (int (unat (paddLen offset actualCount))) SeekCurrent of
                     Inl e \<Rightarrow> (D, Some e, R6)
                   | Inr r7 \<Rightarrow> (D, None, r7))
             else (D, None, R6)) = (D, None, R7)"
  proof (cases "paddLen offset actualCount \<noteq> 4")
    case True
    have "\<not> i + 12 + int (2 * unat offset) + int (unat (actualCount * 2))
             + int (unat (paddLen offset actualCount)) < 0"
      using i0' by linarith
    then show ?thesis using True
      by (simp add: Seek_def Let_def R6_def R7_def P_def del: of_nat_unat of_nat_mult)
  next
    case False
    then show ?thesis by (simp add: R6_def R7_def P_def)
  qed
  have fin: "readConformantVaryingString r = (D, None, R7)"
    by (simp only: readConformantVaryingString_def s1 s2 s3 sk body pd mc
          sum.case prod.case if_False)
  have "P = (4 - (unat offset * 2 + unat actualCount * 2) mod 4) mod 4"
    unfolding P_def by (rule paddLen_skip)
  then show ?thesis using fin by (simp only: i_def D_def R7_def)
qed


lemma unat_count2_gen: "k < 2 ^ 31 \<Longrightarrow> unat ((of_nat k :: uint32) * 2) = 2 * k"
proof -
  assume k: "k < 2 ^ 31"
  have "(of_nat (2 * k) :: uint32) = of_nat k * 2" by simp
  then have "unat ((of_nat k :: uint32) * 2) = unat (of_nat (2 * k) :: uint32)" by (simp only:)
  also have "\<dots> = (2 * k) mod 2 ^ LENGTH(32)" by (rule unat_of_nat)
  also have "\<dots> = 2 * k" using k by simp
  finally show ?thesis .
qed

lemma unat_of_nat32_lt: "k < 2 ^ 31 \<Longrightarrow> unat (of_nat k :: uint32) = k"
proof -
  assume k: "k < 2 ^ 31"
  have "unat (of_nat k :: uint32) = k mod 2 ^ LENGTH(32)" by (rule unat_of_nat)
  also have "\<dots> = k" using k by simp
  finally show ?thesis .
qed

lemma readCVS_of_writeCVS:
  assumes ne: "RRPUnicodeStr.S us \<noteq> []" and ml: "RRPUnicodeStr.MaxLength us \<noteq> 0"
    and k: "length (utf16_Encode (NullTerminate (RRPUnicodeStr.S us))) < 2 ^ 31"
  shows "readConformantVaryingString (NewReader (fst (writeConformantVaryingString [] le us)))
     = (utf16_Decode (utf16_Encode (NullTerminate (RRPUnicodeStr.S us))), None,
        \<lparr>rd_s = fst (writeConformantVaryingString [] le us),
           rd_i = int (length (fst (writeConformantVaryingString [] le us)))\<rparr>)"
proof -
  define t where "t = NullTerminate (RRPUnicodeStr.S us)"
  define kk where "kk = length (utf16_Encode t)"
  define p where "p = (4 - length (ToUnicode t) mod 4) mod 4"
  define W where "W = fst (writeConformantVaryingString [] le us)"
  have W: "W = PutUint32 le (ucast (RRPUnicodeStr.MaxLength us)) @ PutUint32 le 0
              @ PutUint32 le (of_nat kk) @ [] @ ToUnicode t @ replicate p 0"
    unfolding W_def kk_def p_def t_def
    using writeCVS_nonempty [OF ne, of "[]" le] by (simp del: PutUint32.simps)
  have kk: "kk < 2 ^ 31" using k by (simp add: kk_def t_def)
  have lb: "length (ToUnicode t) = 2 * kk" by (simp add: length_ToUnicode kk_def)
  have c2: "unat ((of_nat kk :: uint32) * 2) = 2 * kk" using kk by (rule unat_count2_gen)
  have c1: "unat (of_nat kk :: uint32) = kk" using kk by (rule unat_of_nat32_lt)
  have mc: "(ucast (RRPUnicodeStr.MaxLength us) :: uint32) \<noteq> 0"
    using ml by (simp add: ucast16_32_eq_0)
  have "readConformantVaryingString (NewReader W)
     = (utf16_Decode (units_of_bytes (ToUnicode t)), None,
        (NewReader W)\<lparr>rd_i := rd_i (NewReader W) + 12 + int (2 * unat (0 :: uint32))
            + int (unat ((of_nat kk :: uint32) * 2))
            + int ((4 - (unat (0 :: uint32) * 2 + unat (of_nat kk :: uint32) * 2) mod 4) mod 4)\<rparr>)"
  proof (rule readCVS_total [where maxCount = "ucast (RRPUnicodeStr.MaxLength us)"
          and skipped = "[]" and rest = "replicate p 0"])
    show "0 \<le> rd_i (NewReader W)" by (simp add: NewReader_def)
    show "(ucast (RRPUnicodeStr.MaxLength us) :: uint32) \<noteq> 0" by (rule mc)
    show "drop (nat (rd_i (NewReader W))) (rd_s (NewReader W))
        = PutUint32 le (ucast (RRPUnicodeStr.MaxLength us)) @ PutUint32 le 0
              @ PutUint32 le (of_nat kk) @ [] @ ToUnicode t @ replicate p 0"
      using W by (simp add: NewReader_def del: PutUint32.simps)
    show "length ([] :: byte list) = 2 * unat (0 :: uint32)" by simp
    show "length (ToUnicode t) = unat ((of_nat kk :: uint32) * 2)" by (simp only: lb c2)
  qed
  moreover have "units_of_bytes (ToUnicode t) = utf16_Encode t"
    by (simp add: ToUnicode_def units_of_bytes_ToUnicode)
  moreover have "length W = 12 + 2 * kk + (4 - (2 * kk) mod 4) mod 4"
    by (simp add: W lb p_def)
  ultimately show ?thesis
    by (simp add: NewReader_def c1 c2 W_def [symmetric] t_def [symmetric] mult.commute)
qed

text \<open>
  Claim C1. The padding behind the element bytes of a conformant-varying string is
  \<open>(4 - (Offset*2 + ActualCount*2) mod 4) mod 4\<close> bytes on both sides. Decoder: on every
  buffer that holds, at the reader's position, a non-zero \<open>MaxCount\<close>, an \<open>Offset\<close>, an
  \<open>ActualCount\<close>, the \<open>Offset*2\<close> bytes to skip and the \<open>ActualCount*2\<close> element bytes
  (whatever follows), \<open>readConformantVaryingString\<close> returns without error the decoded
  element bytes and leaves the reader exactly that many bytes behind the end of the element
  bytes. Encoder: \<open>writeConformantVaryingString\<close> writes the three counts, the element bytes
  and then that many zero bytes, for the \<open>Offset\<close> and \<open>ActualCount\<close> it has written (the
  empty string has no element bytes and count 0); the padding length of the encoder is the
  one \<open>msdtyp.NewUnicodeStr\<close> returns, modelled from the spec. Both sides agree: the decoder
  run on what the encoder wrote for a non-empty string with a non-zero \<open>MaxLength\<close> returns
  without error the null-terminated string and stops at the end of the bytes written, so it
  skips all the padding written and nothing else.
\<close>

theorem padding_rule:
  "(0 \<le> rd_i r \<and> maxCount \<noteq> 0
      \<and> drop (nat (rd_i r)) (rd_s r)
          = PutUint32 le maxCount @ PutUint32 le offset @ PutUint32 le actualCount
            @ skipped @ elems @ rest
      \<and> length skipped = 2 * unat offset \<and> length elems = unat (actualCount * 2)
    \<longrightarrow> readConformantVaryingString r
        = (utf16_Decode (units_of_bytes elems), None,
           r\<lparr>rd_i := rd_i r + 12 + int (2 * unat offset) + int (unat (actualCount * 2))
                    + int ((4 - (unat offset * 2 + unat actualCount * 2) mod 4) mod 4)\<rparr>))
   \<and> (NewUnicodeStr (RRPUnicodeStr.S us) True = (off_w, count, paddlen, buffer)
    \<longrightarrow> fst (writeConformantVaryingString w bo us)
        = w @ PutUint32 bo (ucast (RRPUnicodeStr.MaxLength us)) @ PutUint32 bo off_w
            @ PutUint32 bo (if RRPUnicodeStr.S us = [] then 0 else count)
            @ (if RRPUnicodeStr.S us = [] then [] else buffer)
            @ replicate ((4 - (unat off_w * 2
                 + unat (if RRPUnicodeStr.S us = [] then 0 else count) * 2) mod 4) mod 4) 0)
   \<and> (RRPUnicodeStr.S us \<noteq> [] \<and> RRPUnicodeStr.MaxLength us \<noteq> 0
      \<and> length (utf16_Encode (NullTerminate (RRPUnicodeStr.S us))) < 2 ^ 31
    \<longrightarrow> readConformantVaryingString (NewReader (fst (writeConformantVaryingString [] le us)))
        = (utf16_Decode (utf16_Encode (NullTerminate (RRPUnicodeStr.S us))), None,
           \<lparr>rd_s = fst (writeConformantVaryingString [] le us),
              rd_i = int (length (fst (writeConformantVaryingString [] le us)))\<rparr>))"
proof (intro conjI impI)
  assume a: "0 \<le> rd_i r \<and> maxCount \<noteq> 0
      \<and> drop (nat (rd_i r)) (rd_s r)
          = PutUint32 le maxCount @ PutUint32 le offset @ PutUint32 le actualCount
            @ skipped @ elems @ rest
      \<and> length skipped = 2 * unat offset \<and> length elems = unat (actualCount * 2)"
  show "readConformantVaryingString r
        = (utf16_Decode (units_of_bytes elems), None,
           r\<lparr>rd_i := rd_i r + 12 + int (2 * unat offset) + int (unat (actualCount * 2))
                    + int ((4 - (unat offset * 2 + unat actualCount * 2) mod 4) mod 4)\<rparr>)"
    by (rule readCVS_total [where maxCount = maxCount and skipped = skipped and rest = rest])
       (use a in blast)+
next
  assume "NewUnicodeStr (RRPUnicodeStr.S us) True = (off_w, count, paddlen, buffer)"
  then show "fst (writeConformantVaryingString w bo us)
        = w @ PutUint32 bo (ucast (RRPUnicodeStr.MaxLength us)) @ PutUint32 bo off_w
            @ PutUint32 bo (if RRPUnicodeStr.S us = [] then 0 else count)
            @ (if RRPUnicodeStr.S us = [] then [] else buffer)
            @ replicate ((4 - (unat off_w * 2
                 + unat (if RRPUnicodeStr.S us = [] then 0 else count) * 2) mod 4) mod 4) 0"
    by (rule writeCVS_bytes)
next
  assume b: "RRPUnicodeStr.S us \<noteq> [] \<and> RRPUnicodeStr.MaxLength us \<noteq> 0
      \<and> length (utf16_Encode (NullTerminate (RRPUnicodeStr.S us))) < 2 ^ 31"
  show "readConformantVaryingString (NewReader (fst (writeConformantVaryingString [] le us)))
        = (utf16_Decode (utf16_Encode (NullTerminate (RRPUnicodeStr.S us))), None,
           \<lparr>rd_s = fst (writeConformantVaryingString [] le us),
              rd_i = int (length (fst (writeConformantVaryingString [] le us)))\<rparr>)"
    by (rule readCVS_of_writeCVS) (use b in blast)+
qed

theorem padding_rule_witness:
  "readConformantVaryingString
       \<lparr>rd_s = [9, 9, 1, 0, 0, 0, 1, 0, 0, 0, 1, 0, 0, 0, 8, 8, 65, 0, 7, 7, 7], rd_i = 2\<rparr>
     = ([65], None,
        \<lparr>rd_s = [9, 9, 1, 0, 0, 0, 1, 0, 0, 0, 1, 0, 0, 0, 8, 8, 65, 0, 7, 7, 7], rd_i = 18\<rparr>)
   \<and> fst (writeConformantVaryingString [] le \<lparr>RRPUnicodeStr.MaxLength = 3, S = [97, 98]\<rparr>)
       = [3, 0, 0, 0, 0, 0, 0, 0, 3, 0, 0, 0, 97, 0, 98, 0, 0, 0, 0, 0]
   \<and> readConformantVaryingString
       (NewReader [3, 0, 0, 0, 0, 0, 0, 0, 3, 0, 0, 0, 97, 0, 98, 0, 0, 0, 0, 0])
     = ([97, 98, 0], None,
        \<lparr>rd_s = [3, 0, 0, 0, 0, 0, 0, 0, 3, 0, 0, 0, 97, 0, 98, 0, 0, 0, 0, 0], rd_i = 20\<rparr>)"
proof -
  have e: "utf16_Encode (NullTerminate [97, 98]) = [97, 98, 0]"
    by (simp add: NullTerminate_def utf16_Encode_def EncodeRune16_def is_surrogate_def)
  have u: "units_of_bytes [65, 0] = [65]"
    by simp
  have wb: "fst (writeConformantVaryingString [] le \<lparr>RRPUnicodeStr.MaxLength = 3, S = [97, 98]\<rparr>)
       = [3, 0, 0, 0, 0, 0, 0, 0, 3, 0, 0, 0, 97, 0, 98, 0, 0, 0, 0, 0]"
    by (simp add: writeConformantVaryingString_def eval_NewUnicodeStr_ab
          replicate_2 [of "0 :: byte"])
  show ?thesis
    using padding_rule [where r = "\<lparr>rd_s = [9, 9, 1, 0, 0, 0, 1, 0, 0, 0, 1, 0, 0, 0, 8, 8, 65, 0,
                                            7, 7, 7], rd_i = 2\<rparr>"
        and maxCount = 1 and offset = 1 and actualCount = 1 and skipped = "[8, 8]"
        and elems = "[65, 0]" and rest = "[7, 7, 7]"
        and us = "\<lparr>RRPUnicodeStr.MaxLength = 3, S = [97, 98]\<rparr>"
        and off_w = 0 and count = 3 and paddlen = 2 and buffer = "[97, 0, 98, 0, 0, 0]"
        and w = "[]" and bo = le]
      eval_NewUnicodeStr_ab replicate_2 [of "0 :: byte"] e u
    by (simp add: wb is_surrogate_def)
qed

section \<open>Referent IDs across the request encoders\<close>








end
